theory Spec2Isabelle
  imports Complex_Main "HOL-Library.Multiset"
begin

section \<open>Numbers of the host language\<close>

text \<open>
  The command-line code computes with the host language's \<^verbatim>\<open>number\<close> type.  The model keeps
  the values the code distinguishes: the not-a-number value, the two infinities and the finite
  numbers.  A finite number is a rational; the two zeros are one value and rounding of the
  quotient is not represented.
\<close>

datatype jsnum = NaN | PosInf | NegInf | Fin rat

fun isNaN :: \<open>jsnum \<Rightarrow> bool\<close> where
  \<open>isNaN NaN = True\<close>
| \<open>isNaN _ = False\<close>

fun isInteger :: \<open>jsnum \<Rightarrow> bool\<close> where
  \<open>isInteger (Fin r) = (of_int \<lfloor>r\<rfloor> = r)\<close>
| \<open>isInteger _ = False\<close>

text \<open>The relational operators: every comparison with the not-a-number value is false.\<close>

fun js_lt :: \<open>jsnum \<Rightarrow> jsnum \<Rightarrow> bool\<close> where
  \<open>js_lt NaN _ = False\<close>
| \<open>js_lt _ NaN = False\<close>
| \<open>js_lt (Fin a) (Fin b) = (a < b)\<close>
| \<open>js_lt _ NegInf = False\<close>
| \<open>js_lt NegInf _ = True\<close>
| \<open>js_lt PosInf _ = False\<close>
| \<open>js_lt (Fin a) PosInf = True\<close>

definition js_gt :: \<open>jsnum \<Rightarrow> jsnum \<Rightarrow> bool\<close> where
  \<open>js_gt a b = js_lt b a\<close>

definition js_ge :: \<open>jsnum \<Rightarrow> jsnum \<Rightarrow> bool\<close> where
  \<open>js_ge a b = (\<not> isNaN a \<and> \<not> isNaN b \<and> \<not> js_lt a b)\<close>

fun js_div :: \<open>jsnum \<Rightarrow> rat \<Rightarrow> jsnum\<close> where
  \<open>js_div (Fin a) d = Fin (a / d)\<close>
| \<open>js_div x d = x\<close>

section \<open>The service check command\<close>

subsection \<open>validateHistoricParams\<close>

text \<open>
  The argument object and the returned \<^verbatim>\<open>HistoricQueryParameters\<close>.  The fields \<^verbatim>\<open>to\<close> and
  \<^verbatim>\<open>from\<close> carry a prefix, since \<^verbatim>\<open>from\<close> is a keyword here.
\<close>

record HistoricParamsInput =
  in_to :: string
  in_from :: string
  in_queryCountThreshold :: jsnum
  in_queryCountThresholdPercentage :: jsnum

record HistoricQueryParameters =
  hq_to :: jsnum
  hq_from :: jsnum
  hq_queryCountThreshold :: jsnum
  hq_queryCountThresholdPercentage :: jsnum

datatype error = Error string | GraphQLError string

definition msg_to :: string where
  \<open>msg_to = ''Please provide a valid number for the --to flag. Valid numbers are in the range x <= -0.''\<close>

definition msg_from :: string where
  \<open>msg_from = ''Please provide a valid number for the --from flag. Valid numbers are integers in the range x < -0, and --from must be less than --to.''\<close>

definition msg_queryCountThreshold :: string where
  \<open>msg_queryCountThreshold = ''Please provide a valid number for the --queryCountThreshold flag. Valid numbers are integers in the range x >= 1.''\<close>

definition msg_queryCountThresholdPercentage :: string where
  \<open>msg_queryCountThresholdPercentage = ''Please provide a valid number for the --queryCountThresholdPercentage flag. Valid numbers are in the range 0 <= x <= 100.''\<close>

text \<open>
  The conversion of a string to a number is the host language's \<^verbatim>\<open>Number\<close>; it is the first
  argument of the model, so that every statement holds for whatever the conversion returns.
\<close>

definition validateHistoricParams ::
  \<open>(string \<Rightarrow> jsnum) \<Rightarrow> HistoricParamsInput \<Rightarrow> error + HistoricQueryParameters\<close> where
  \<open>validateHistoricParams Number p =
    (let toNum = Number (in_to p);
         fromNum = Number (in_from p)
     in
       if in_to p = ''0'' \<or> isNaN toNum \<or> js_gt toNum (Fin 0) \<or> \<not> isInteger toNum
       then Inl (Error msg_to)
       else if in_from p = ''0'' \<or> isNaN fromNum \<or> js_ge fromNum toNum \<or> \<not> isInteger fromNum
       then Inl (Error msg_from)
       else if \<not> isInteger (in_queryCountThreshold p) \<or> js_lt (in_queryCountThreshold p) (Fin 1)
       then Inl (Error msg_queryCountThreshold)
       else if js_lt (in_queryCountThresholdPercentage p) (Fin 0)
             \<or> js_gt (in_queryCountThresholdPercentage p) (Fin 100)
       then Inl (Error msg_queryCountThresholdPercentage)
       else
         (let asPercentage = js_div (in_queryCountThresholdPercentage p) 100
          in Inr \<lparr> hq_to = toNum,
                   hq_from = fromNum,
                   hq_queryCountThreshold = in_queryCountThreshold p,
                   hq_queryCountThresholdPercentage = asPercentage \<rparr>))\<close>

text \<open>A conversion that agrees with the host language on the two default flag values.\<close>

definition Number_defaults :: \<open>string \<Rightarrow> jsnum\<close> where
  \<open>Number_defaults s = (if s = ''-0'' then Fin 0 else if s = ''-86400'' then Fin (- 86400) else NaN)\<close>

subsection \<open>run: reporting the result of the check\<close>

text \<open>
  The part of \<^verbatim>\<open>run\<close> after the tasks have finished.  The change type enumeration and
  \<^verbatim>\<open>format\<close> are declared outside the sources at hand: the type of a change's \<^verbatim>\<open>type\<close> field is
  a type variable, and the member \<^verbatim>\<open>FAILURE\<close> and the function \<^verbatim>\<open>format\<close> are arguments.
  What the command does to its environment is a list of effects, in the order of the calls.  A
  call of \<^verbatim>\<open>exit\<close> ends the command; the effect and the outcome keep the status the call is
  given, which is \<open>None\<close> for a call without an argument.
\<close>

record 'ct Change =
  change_type :: 'ct
  code :: string
  description :: string











section \<open>The Swift code generator\<close>

subsection \<open>The compiler's intermediate representation\<close>

text \<open>
  The types of the schema, as far as the generator tells them apart: the named types by their
  kind, and the list and non-null wrappers.
\<close>

datatype GraphQLType =
    GraphQLScalarType string
  | GraphQLObjectType string
  | GraphQLInterfaceType string
  | GraphQLUnionType string
  | GraphQLEnumType string
  | GraphQLInputObjectType string
  | GraphQLList (ofType: GraphQLType)
  | GraphQLNonNull (ofType: GraphQLType)

fun isNonNullType :: \<open>GraphQLType \<Rightarrow> bool\<close> where
  \<open>isNonNullType (GraphQLNonNull _) = True\<close>
| \<open>isNonNullType _ = False\<close>

fun isListType :: \<open>GraphQLType \<Rightarrow> bool\<close> where
  \<open>isListType (GraphQLList _) = True\<close>
| \<open>isListType _ = False\<close>

fun getNamedType :: \<open>GraphQLType \<Rightarrow> GraphQLType\<close> where
  \<open>getNamedType (GraphQLList t) = getNamedType t\<close>
| \<open>getNamedType (GraphQLNonNull t) = getNamedType t\<close>
| \<open>getNamedType t = t\<close>

fun isCompositeType :: \<open>GraphQLType \<Rightarrow> bool\<close> where
  \<open>isCompositeType (GraphQLObjectType _) = True\<close>
| \<open>isCompositeType (GraphQLInterfaceType _) = True\<close>
| \<open>isCompositeType (GraphQLUnionType _) = True\<close>
| \<open>isCompositeType _ = False\<close>

text \<open>
  The entries of \<^verbatim>\<open>typesUsed\<close>: the generator asks whether an entry is an enumeration type or
  an input object type, and reads its values or fields in these two cases.
\<close>

record GraphQLEnumValue =
  name :: string
  description :: \<open>string option\<close>
  isDeprecated :: bool
  deprecationReason :: \<open>string option\<close>
  "value" :: string

record GraphQLEnumTypeDef =
  name :: string
  description :: \<open>string option\<close>
  getValues :: \<open>GraphQLEnumValue list\<close>

record GraphQLInputField =
  name :: string
  description :: \<open>string option\<close>
  type :: GraphQLType

record GraphQLInputObjectTypeDef =
  name :: string
  description :: \<open>string option\<close>
  getFields :: \<open>GraphQLInputField list\<close>

datatype TypeUsed =
    EnumTypeUsed GraphQLEnumTypeDef
  | InputObjectTypeUsed GraphQLInputObjectTypeDef
  | OtherTypeUsed GraphQLType

text \<open>Selection sets.  A possible type is an object type, known by its name.\<close>

datatype Selection =
    Field (responseKey: string) (fieldName: string) (fieldAlias: \<open>string option\<close>)
          (fieldType: GraphQLType) (fieldSelectionSet: \<open>SelectionSet option\<close>)
  | TypeCondition GraphQLType SelectionSet
  | BooleanCondition string bool SelectionSet
  | FragmentSpreadSelection FragmentSpread
and SelectionSet =
    SelectionSet (possibleTypes: \<open>string list\<close>) (selections: \<open>Selection list\<close>)
and FragmentSpread =
    FragmentSpread (fragmentName: string) (selectionSet: SelectionSet)

record Variant =
  possibleTypes :: \<open>string list\<close>
  selections :: \<open>Selection list\<close>
  fragmentSpreads :: \<open>FragmentSpread list\<close>

record TypeCase =
  default :: Variant
  variants :: \<open>Variant list\<close>
  remainder :: \<open>Variant option\<close>

record Variable =
  name :: string
  type :: GraphQLType

record Operation =
  operationId :: \<open>string option\<close>
  operationName :: string
  operationType :: string
  variables :: \<open>Variable list\<close>
  filePath :: string
  source :: string
  rootType :: GraphQLType
  selectionSet :: SelectionSet

record Fragment =
  filePath :: string
  fragmentName :: string
  source :: string
  typeCondition :: GraphQLType
  selectionSet :: SelectionSet

record CompilerOptions =
  namespace :: \<open>string option\<close>
  mergeInFieldsFromFragmentSpreads :: bool
  generateOperationIds :: bool

text \<open>
  The two tables of the context are objects keyed by name; the model keeps the entries in the
  order in which the object enumerates them.
\<close>

record CompilerContext =
  typesUsed :: \<open>TypeUsed list\<close>
  operations :: \<open>(string \<times> Operation) list\<close>
  fragments :: \<open>(string \<times> Fragment) list\<close>
  options :: CompilerOptions

subsection \<open>Properties handed to the printer\<close>

text \<open>
  The objects the helpers build from the representation.  A property made from a variant or from
  a fragment spread is the variant or spread together with the names chosen for it; the model
  keeps the two side by side.
\<close>

record Property =
  name :: string
  propertyName :: string
  type :: GraphQLType
  typeName :: string
  isOptional :: bool
  description :: \<open>string option\<close>

record FieldProperty =
  responseKey :: string
  propertyName :: string
  type :: GraphQLType
  typeName :: string
  structName :: string
  isOptional :: bool
  isConditional :: bool
  description :: \<open>string option\<close>
  isDeprecated :: bool
  deprecationReason :: \<open>string option\<close>
  selectionSet :: \<open>SelectionSet option\<close>

record VariantProperty =
  variant :: Variant
  propertyName :: string
  typeName :: string
  structName :: string

record FragmentSpreadProperty =
  fragmentSpread :: FragmentSpread
  propertyName :: string
  typeName :: string
  structName :: string
  isConditional :: bool

subsection \<open>The printer\<close>

text \<open>
  The generator writes through the methods of its base class, which are not among the sources
  at hand.  The model records the calls: what a method of the generator prints is the list of
  the calls it makes, in order, and a call that takes a closure holds the calls the closure
  makes.  The last five constructors stand for calls of methods of the generator itself that the
  model does not unfold: the initializers and the selections of a struct, and the struct of a
  field's own selection set, which is the same method again, one level down.
\<close>

record Class =
  className :: string
  modifiers :: \<open>string list\<close>
  adoptedProtocols :: \<open>string list\<close>

record Struct =
  structName :: string
  adoptedProtocols :: \<open>string list option\<close>
  description :: \<open>string option\<close>
  namespace :: \<open>string option\<close>

datatype code =
    PrintOnNewline string
  | Print string
  | PrintNewline
  | PrintNewlineIfNeeded
  | Comment \<open>string option\<close>
  | CommentWithoutTrimming string
  | MultilineString string
  | DeprecationAttributes bool \<open>string option\<close>
  | PropertyDeclarations \<open>Property list\<close>
  | WithIndent \<open>code list\<close>
  | WithinBlock \<open>code list\<close>
  | ClassDeclaration Class \<open>code list\<close>
  | StructDeclaration Struct bool \<open>code list\<close>
  | WithinFile string \<open>code list\<close>
  | NamespaceDeclaration \<open>string option\<close> \<open>code list\<close>
  | NamespaceExtensionDeclaration \<open>string option\<close> \<open>code list\<close>
  | TypeCaseInitialization TypeCase
  | SelectionSetInitialization Variant
  | InitializersForTypeCase TypeCase
  | InitializersForVariant Variant
  | StructDeclarationForSelectionSet string SelectionSet bool

text \<open>
  The functions the generator imports from the helper class, from the core compiler, from the
  printing utilities and from the path library.  None of them is among the sources at hand; they
  are the first argument of every function of the model, and every statement holds for whatever
  they return.  An optional argument that is left out is \<open>None\<close>; a string handed to
  \<^verbatim>\<open>join\<close> can be a falsy value instead, which is \<open>None\<close> as well;
  the set returned by \<^verbatim>\<open>collectFragmentsReferenced\<close> is the list of its members in the order
  in which the set enumerates them.
\<close>

record Imports =
  operationClassName :: \<open>string \<Rightarrow> string\<close>
  structNameForFragmentName :: \<open>string \<Rightarrow> string\<close>
  typeNameFromGraphQLType :: \<open>GraphQLType \<Rightarrow> string option \<Rightarrow> bool option \<Rightarrow> string\<close>
  structNameForPropertyName :: \<open>string \<Rightarrow> string\<close>
  mapExpressionForType ::
    \<open>GraphQLType \<Rightarrow> bool \<Rightarrow> (string \<Rightarrow> string) \<Rightarrow> string \<Rightarrow> string \<Rightarrow> string \<Rightarrow> string\<close>
  isList :: \<open>GraphQLType \<Rightarrow> bool\<close>
  enumCaseName :: \<open>string \<Rightarrow> string\<close>
  enumDotCaseName :: \<open>string \<Rightarrow> string\<close>
  propertyFromField :: \<open>Selection \<Rightarrow> FieldProperty\<close>
  propertyFromVariant :: \<open>Variant \<Rightarrow> VariantProperty\<close>
  propertyFromFragmentSpread :: \<open>FragmentSpread \<Rightarrow> bool \<Rightarrow> FragmentSpreadProperty\<close>
  propertyFromInputField :: \<open>GraphQLInputField \<Rightarrow> Property\<close>
  escapeIdentifierIfNeeded :: \<open>string \<Rightarrow> string\<close>
  join :: \<open>string option list \<Rightarrow> string option \<Rightarrow> string\<close>
  wrap :: \<open>string \<Rightarrow> string \<Rightarrow> string \<Rightarrow> string\<close>
  typeCaseForSelectionSet :: \<open>SelectionSet \<Rightarrow> bool \<Rightarrow> TypeCase\<close>
  collectAndMergeFields :: \<open>Variant \<Rightarrow> bool \<Rightarrow> Selection list\<close>
  collectFragmentsReferenced :: \<open>SelectionSet \<Rightarrow> (string \<times> Fragment) list \<Rightarrow> string list\<close>
  generateOperationId :: \<open>Operation \<Rightarrow> (string \<times> Fragment) list \<Rightarrow> string list \<Rightarrow> string\<close>
  basename :: \<open>string \<Rightarrow> string\<close>

text \<open>The truth value of an optional string, and \<^verbatim>\<open>x || undefined\<close> on one.\<close>

fun truthy :: \<open>string option \<Rightarrow> bool\<close> where
  \<open>truthy None = False\<close>
| \<open>truthy (Some s) = (s \<noteq> [])\<close>


text \<open>\<^verbatim>\<open>s || ":"\<close> on a string.\<close>

definition orColon :: \<open>string \<Rightarrow> string\<close> where
  \<open>orColon s = (if s \<noteq> [] then s else '':'')\<close>

subsection \<open>The generator's methods\<close>


text \<open>The text of one parameter, and \<^verbatim>\<open>isOptional && " = nil"\<close>, its second part.\<close>

definition defaultValueClause :: \<open>Property \<Rightarrow> string option\<close> where
  \<open>defaultValueClause p = (if Property.isOptional p then Some '' = nil'' else None)\<close>

definition parameterForProperty :: \<open>Imports \<Rightarrow> Property \<Rightarrow> string\<close> where
  \<open>parameterForProperty I p =
    join I
      [ Some (escapeIdentifierIfNeeded I (Property.propertyName p) @ '': '' @ Property.typeName p),
        defaultValueClause p ]
      None\<close>

definition parametersForProperties :: \<open>Imports \<Rightarrow> Property list \<Rightarrow> code list\<close> where
  \<open>parametersForProperties I properties =
    [ Print ''('',
      Print (join I (map (\<lambda>p. Some (parameterForProperty I p)) properties) (Some '', '')),
      Print '')'' ]\<close>

definition initializerDeclarationForProperties :: \<open>Imports \<Rightarrow> Property list \<Rightarrow> code list\<close> where
  \<open>initializerDeclarationForProperties I properties =
    [ PrintOnNewline ''public init'' ]
    @ parametersForProperties I properties
    @ [ WithinBlock
          (map (\<lambda>p. PrintOnNewline
                  (''self.'' @ Property.propertyName p @ '' = ''
                    @ escapeIdentifierIfNeeded I (Property.propertyName p)))
            properties) ]\<close>

text \<open>The declaration of the property of a field.\<close>

definition propertyDeclarationForField :: \<open>Imports \<Rightarrow> FieldProperty \<Rightarrow> code list\<close> where
  \<open>propertyDeclarationForField I field =
    (let responseKey' = FieldProperty.responseKey field;
         propertyName' = FieldProperty.propertyName field;
         typeName' = FieldProperty.typeName field;
         type' = FieldProperty.type field;
         isOptional' = FieldProperty.isOptional field;
         isConditional' = FieldProperty.isConditional field;
         unmodifiedFieldType = getNamedType type'
     in
       [ PrintNewlineIfNeeded,
         Comment (FieldProperty.description field),
         DeprecationAttributes (FieldProperty.isDeprecated field)
           (FieldProperty.deprecationReason field),
         PrintOnNewline
           (''public var '' @ escapeIdentifierIfNeeded I propertyName' @ '': '' @ typeName'),
         WithinBlock
           (if isCompositeType unmodifiedFieldType
            then
              (let structName' =
                     escapeIdentifierIfNeeded I (structNameForPropertyName I propertyName')
               in
                 if isList I type'
                 then
                   [ PrintOnNewline ''get'',
                     WithinBlock
                       (let resultMapTypeName =
                              typeNameFromGraphQLType I type' (Some ''ResultMap'') (Some False);
                            expression =
                              (if isOptional'
                               then ''(resultMap["'' @ responseKey' @ ''"] as? ''
                                      @ resultMapTypeName @ '')''
                               else ''(resultMap["'' @ responseKey' @ ''"] as! ''
                                      @ resultMapTypeName @ '')'')
                        in [ PrintOnNewline
                               (''return ''
                                 @ mapExpressionForType I type' isConditional'
                                     (\<lambda>e. structName' @ ''(unsafeResultMap: '' @ e @ '')'')
                                     expression ''ResultMap'' structName') ]),
                     PrintOnNewline ''set'',
                     WithinBlock
                       (let newValueExpression =
                              mapExpressionForType I type' isConditional'
                                (\<lambda>e. e @ ''.resultMap'') ''newValue'' structName' ''ResultMap''
                        in [ PrintOnNewline
                               (''resultMap.updateValue('' @ newValueExpression
                                 @ '', forKey: "'' @ responseKey' @ ''")'') ]) ]
                 else
                   [ PrintOnNewline ''get'',
                     WithinBlock
                       [ if isOptional'
                         then PrintOnNewline
                                (''return (resultMap["'' @ responseKey'
                                  @ ''"] as? ResultMap).flatMap { '' @ structName'
                                  @ ''(unsafeResultMap: $0) }'')
                         else PrintOnNewline
                                (''return '' @ structName' @ ''(unsafeResultMap: resultMap["''
                                  @ responseKey' @ ''"]! as! ResultMap)'') ],
                     PrintOnNewline ''set'',
                     WithinBlock
                       (let newValueExpression =
                              (if isOptional' then ''newValue?.resultMap'' else ''newValue.resultMap'')
                        in [ PrintOnNewline
                               (''resultMap.updateValue('' @ newValueExpression
                                 @ '', forKey: "'' @ responseKey' @ ''")'') ]) ])
            else
              [ PrintOnNewline ''get'',
                WithinBlock
                  [ if isOptional'
                    then PrintOnNewline
                           (''return resultMap["'' @ responseKey' @ ''"] as? '' @ butlast typeName')
                    else PrintOnNewline
                           (''return resultMap["'' @ responseKey' @ ''"]! as! '' @ typeName') ],
                PrintOnNewline ''set'',
                WithinBlock
                  [ PrintOnNewline
                      (''resultMap.updateValue(newValue, forKey: "'' @ responseKey' @ ''")'') ] ]) ])\<close>

definition propertyDeclarationForVariant :: \<open>Imports \<Rightarrow> VariantProperty \<Rightarrow> code list\<close> where
  \<open>propertyDeclarationForVariant I v =
    [ PrintNewlineIfNeeded,
      PrintOnNewline
        (''public var '' @ escapeIdentifierIfNeeded I (VariantProperty.propertyName v)
          @ '': '' @ VariantProperty.typeName v),
      WithinBlock
        [ PrintOnNewline ''get'',
          WithinBlock
            [ PrintOnNewline
                (''if !'' @ VariantProperty.structName v
                  @ ''.possibleTypes.contains(__typename) { return nil }''),
              PrintOnNewline
                (''return '' @ VariantProperty.structName v @ ''(unsafeResultMap: resultMap)'') ],
          PrintOnNewline ''set'',
          WithinBlock
            [ PrintOnNewline ''guard let newValue = newValue else { return }'',
              PrintOnNewline ''resultMap = newValue.resultMap'' ] ] ]\<close>

text \<open>
  The accessor of one fragment spread inside the \<^verbatim>\<open>Fragments\<close> struct, the body of the loop
  over the spreads.
\<close>

definition propertyDeclarationForFragmentSpread ::
  \<open>Imports \<Rightarrow> FragmentSpreadProperty \<Rightarrow> code list\<close> where
  \<open>propertyDeclarationForFragmentSpread I s =
    [ PrintNewlineIfNeeded,
      PrintOnNewline
        (''public var '' @ escapeIdentifierIfNeeded I (FragmentSpreadProperty.propertyName s)
          @ '': '' @ FragmentSpreadProperty.typeName s),
      WithinBlock
        [ PrintOnNewline ''get'',
          WithinBlock
            ((if FragmentSpreadProperty.isConditional s
              then [ PrintOnNewline
                       (''if !'' @ FragmentSpreadProperty.structName s
                         @ ''.possibleTypes.contains(resultMap["__typename"]! as! String) { return nil }'') ]
              else [])
             @ [ PrintOnNewline
                   (''return '' @ FragmentSpreadProperty.structName s
                     @ ''(unsafeResultMap: resultMap)'') ]),
          PrintOnNewline ''set'',
          WithinBlock
            (if FragmentSpreadProperty.isConditional s
             then [ PrintOnNewline ''guard let newValue = newValue else { return }'',
                    PrintOnNewline ''resultMap += newValue.resultMap'' ]
             else [ PrintOnNewline ''resultMap += newValue.resultMap'' ]) ] ]\<close>

text \<open>
  Whether a spread is conditional inside a variant: some possible type of the variant is not a
  possible type of the spread's selection set.
\<close>

definition spreadIsConditional :: \<open>Variant \<Rightarrow> FragmentSpread \<Rightarrow> bool\<close> where
  \<open>spreadIsConditional v fs =
    list_ex (\<lambda>t. t \<notin> set (SelectionSet.possibleTypes (FragmentSpread.selectionSet fs)))
      (Variant.possibleTypes v)\<close>

definition possibleTypesDeclaration :: \<open>Imports \<Rightarrow> string list \<Rightarrow> code list\<close> where
  \<open>possibleTypesDeclaration I types =
    [ PrintNewlineIfNeeded,
      PrintOnNewline ''public static let possibleTypes = ['',
      Print (join I (map (\<lambda>t. Some (''"'' @ t @ ''"'')) types) (Some '', '')),
      Print '']'' ]\<close>

text \<open>
  The declaration of a struct for a variant.  The property \<^verbatim>\<open>fragments\<close> and the struct
  \<^verbatim>\<open>Fragments\<close> are printed when the variant has fragment spreads; the closure of that struct
  and the closure of the struct of the variant are functions of their own.
\<close>

definition fragmentsStructBody :: \<open>Imports \<Rightarrow> FragmentSpreadProperty list \<Rightarrow> code list\<close> where
  \<open>fragmentsStructBody I fragmentSpreads' =
    [ PrintOnNewline ''public private(set) var resultMap: ResultMap'',
      PrintNewlineIfNeeded,
      PrintOnNewline ''public init(unsafeResultMap: ResultMap)'',
      WithinBlock [ PrintOnNewline ''self.resultMap = unsafeResultMap'' ] ]
    @ concat (map (propertyDeclarationForFragmentSpread I) fragmentSpreads')\<close>

definition fragmentsDeclaration ::
  \<open>Imports \<Rightarrow> bool \<Rightarrow> FragmentSpreadProperty list \<Rightarrow> code list\<close> where
  \<open>fragmentsDeclaration I outputIndividualFiles fragmentSpreads' =
    [ PrintNewlineIfNeeded,
      PrintOnNewline ''public var fragments: Fragments'',
      WithinBlock
        [ PrintOnNewline ''get'',
          WithinBlock [ PrintOnNewline ''return Fragments(unsafeResultMap: resultMap)'' ],
          PrintOnNewline ''set'',
          WithinBlock [ PrintOnNewline ''resultMap += newValue.resultMap'' ] ],
      StructDeclaration
        \<lparr> Struct.structName = ''Fragments'',
          Struct.adoptedProtocols = None,
          Struct.description = None,
          Struct.namespace = None \<rparr>
        outputIndividualFiles
        (fragmentsStructBody I fragmentSpreads') ]\<close>

definition structBodyForVariant ::
  \<open>Imports \<Rightarrow> CompilerContext \<Rightarrow> Variant \<Rightarrow> TypeCase option
    \<Rightarrow> bool \<Rightarrow> code list option \<Rightarrow> code list option \<Rightarrow> code list\<close> where
  \<open>structBodyForVariant I ctx v typeCase outputIndividualFiles before after =
    (let mergeInFieldsFromFragmentSpreads' =
           CompilerOptions.mergeInFieldsFromFragmentSpreads (options ctx);
         fields =
           map (propertyFromField I) (collectAndMergeFields I v mergeInFieldsFromFragmentSpreads');
         fragmentSpreads' =
           map (\<lambda>fs. propertyFromFragmentSpread I fs (spreadIsConditional v fs))
             (Variant.fragmentSpreads v)
     in
       (case before of None \<Rightarrow> [] | Some b \<Rightarrow> b)
       @ possibleTypesDeclaration I (Variant.possibleTypes v)
       @ [ PrintNewlineIfNeeded,
           PrintOnNewline ''public static let selections: [GraphQLSelection] = '',
           (case typeCase of
              Some tc \<Rightarrow> TypeCaseInitialization tc
            | None \<Rightarrow> SelectionSetInitialization v),
           PrintNewlineIfNeeded,
           PrintOnNewline ''public private(set) var resultMap: ResultMap'',
           PrintNewlineIfNeeded,
           PrintOnNewline ''public init(unsafeResultMap: ResultMap)'',
           WithinBlock [ PrintOnNewline ''self.resultMap = unsafeResultMap'' ],
           (case typeCase of
              Some tc \<Rightarrow> InitializersForTypeCase tc
            | None \<Rightarrow> InitializersForVariant v) ]
       @ concat (map (propertyDeclarationForField I) fields)
       @ (if length fragmentSpreads' > 0
          then fragmentsDeclaration I outputIndividualFiles fragmentSpreads'
          else [])
       @ concat
           (map (\<lambda>field.
                   if isCompositeType (getNamedType (FieldProperty.type field))
                   then (case FieldProperty.selectionSet field of
                           Some fieldSelSet \<Rightarrow>
                             [ StructDeclarationForSelectionSet
                                 (FieldProperty.structName field) fieldSelSet
                                 outputIndividualFiles ]
                         | None \<Rightarrow> [])
                   else [])
             fields)
       @ (case after of None \<Rightarrow> [] | Some a \<Rightarrow> a))\<close>

definition structDeclarationForVariant ::
  \<open>Imports \<Rightarrow> CompilerContext \<Rightarrow> string \<Rightarrow> string list option \<Rightarrow> Variant \<Rightarrow> TypeCase option
    \<Rightarrow> bool \<Rightarrow> code list option \<Rightarrow> code list option \<Rightarrow> code list\<close> where
  \<open>structDeclarationForVariant I ctx structName' adoptedProtocols' v typeCase
      outputIndividualFiles before after =
    [ StructDeclaration
        \<lparr> Struct.structName = structName',
          Struct.adoptedProtocols =
            Some (case adoptedProtocols' of None \<Rightarrow> [''GraphQLSelectionSet''] | Some ps \<Rightarrow> ps),
          Struct.description = None,
          Struct.namespace = CompilerOptions.namespace (options ctx) \<rparr>
        outputIndividualFiles
        (structBodyForVariant I ctx v typeCase outputIndividualFiles before after) ]\<close>

text \<open>
  The declaration of a struct for a selection set: the struct of the default variant of its type
  case, which ends with the accessor and the struct of each variant of the type case.
\<close>

definition variantDeclarations ::
  \<open>Imports \<Rightarrow> CompilerContext \<Rightarrow> TypeCase \<Rightarrow> bool \<Rightarrow> code list\<close> where
  \<open>variantDeclarations I ctx typeCase outputIndividualFiles =
    (let vs = map (propertyFromVariant I) (variants typeCase)
     in concat
          (map (\<lambda>v. propertyDeclarationForVariant I v
                     @ structDeclarationForVariant I ctx (VariantProperty.structName v) None
                         (variant v) None outputIndividualFiles None None)
            vs))\<close>

definition structDeclarationForSelectionSet ::
  \<open>Imports \<Rightarrow> CompilerContext \<Rightarrow> string \<Rightarrow> string list option \<Rightarrow> SelectionSet
    \<Rightarrow> bool \<Rightarrow> code list option \<Rightarrow> code list\<close> where
  \<open>structDeclarationForSelectionSet I ctx structName' adoptedProtocols' selSet
      outputIndividualFiles before =
    (let typeCase =
           typeCaseForSelectionSet I selSet
             (CompilerOptions.mergeInFieldsFromFragmentSpreads (options ctx))
     in
       structDeclarationForVariant I ctx structName'
         (Some (case adoptedProtocols' of None \<Rightarrow> [''GraphQLSelectionSet''] | Some ps \<Rightarrow> ps))
         (default typeCase) (Some typeCase) outputIndividualFiles before
         (Some (variantDeclarations I ctx typeCase outputIndividualFiles)))\<close>

definition structDeclarationForFragment ::
  \<open>Imports \<Rightarrow> CompilerContext \<Rightarrow> Fragment \<Rightarrow> bool \<Rightarrow> code list\<close> where
  \<open>structDeclarationForFragment I ctx fragment outputIndividualFiles =
    (let structName' = structNameForFragmentName I (Fragment.fragmentName fragment)
     in
       structDeclarationForSelectionSet I ctx structName' (Some [''GraphQLFragment''])
         (Fragment.selectionSet fragment) outputIndividualFiles
         (Some
           (if Fragment.source fragment \<noteq> []
            then [ CommentWithoutTrimming (Fragment.source fragment),
                   PrintOnNewline ''public static let fragmentDefinition ='',
                   WithIndent [ MultilineString (Fragment.source fragment) ] ]
            else [])))\<close>

text \<open>The properties of the variables of an operation.\<close>

definition propertyFromVariable :: \<open>Imports \<Rightarrow> Variable \<Rightarrow> Property\<close> where
  \<open>propertyFromVariable I v =
    (let typeName' = typeNameFromGraphQLType I (Variable.type v) None None;
         isOptional' =
           (\<not> (isNonNullType (Variable.type v)
                \<or> (isListType (Variable.type v) \<and> isNonNullType (ofType (Variable.type v)))))
     in \<lparr> Property.name = Variable.name v,
          Property.propertyName = Variable.name v,
          Property.type = Variable.type v,
          Property.typeName = typeName',
          Property.isOptional = isOptional',
          Property.description = None \<rparr>)\<close>

text \<open>The generator: the context it was made for and what it has printed so far.\<close>

record SwiftAPIGenerator =
  "context" :: CompilerContext
  "output" :: \<open>code list\<close>

definition print_code :: \<open>code list \<Rightarrow> SwiftAPIGenerator \<Rightarrow> SwiftAPIGenerator\<close> where
  \<open>print_code c g = g\<lparr> output := output g @ c \<rparr>\<close>

text \<open>
  The class name and the protocol of an operation, or the error of the \<^verbatim>\<open>default\<close> branch.
\<close>

definition classNameAndProtocol :: \<open>Imports \<Rightarrow> Operation \<Rightarrow> error + string \<times> string\<close> where
  \<open>classNameAndProtocol I operation =
    (if operationType operation = ''query''
     then Inr (operationClassName I (operationName operation) @ ''Query'', ''GraphQLQuery'')
     else if operationType operation = ''mutation''
     then Inr (operationClassName I (operationName operation) @ ''Mutation'', ''GraphQLMutation'')
     else if operationType operation = ''subscription''
     then Inr (operationClassName I (operationName operation) @ ''Subscription'',
               ''GraphQLSubscription'')
     else Inl (GraphQLError (''Unsupported operation type "'' @ operationType operation @ ''"'')))\<close>

text \<open>The member \<^verbatim>\<open>queryDocument\<close>, printed when some fragment is referenced.\<close>

definition queryDocumentDeclaration :: \<open>Imports \<Rightarrow> string list \<Rightarrow> code list\<close> where
  \<open>queryDocumentDeclaration I fragmentsReferenced =
    [ PrintNewlineIfNeeded,
      PrintOnNewline ''public var queryDocument: String { return operationDefinition'' ]
    @ map (\<lambda>fragmentName.
             Print (''.appending('' @ structNameForFragmentName I fragmentName
                     @ ''.fragmentDefinition)''))
        fragmentsReferenced
    @ [ Print '' }'' ]\<close>

text \<open>
  What the closure of the class declaration prints, and the class declaration itself.  The
  result is the thrown error or nothing, the operation as the call leaves it, and the generator.
\<close>

definition classBodyForOperation ::
  \<open>Imports \<Rightarrow> CompilerContext \<Rightarrow> Operation \<Rightarrow> bool \<Rightarrow> code list\<close> where
  \<open>classBodyForOperation I ctx operation outputIndividualFiles =
    (let fragmentsReferenced =
           collectFragmentsReferenced I (Operation.selectionSet operation) (fragments ctx)
     in
       (if Operation.source operation \<noteq> []
        then [ CommentWithoutTrimming (Operation.source operation),
               PrintOnNewline ''public let operationDefinition ='',
               WithIndent [ MultilineString (Operation.source operation) ] ]
        else [])
       @ [ PrintNewlineIfNeeded,
           PrintOnNewline (''public let operationName = "'' @ operationName operation @ ''"'') ]
       @ (if generateOperationIds (options ctx)
          then [ PrintNewlineIfNeeded,
                 PrintOnNewline
                   (''public let operationIdentifier: String? = "''
                     @ generateOperationId I operation (fragments ctx) fragmentsReferenced
                     @ ''"'') ]
          else [])
       @ (if length fragmentsReferenced > 0
          then queryDocumentDeclaration I fragmentsReferenced
          else [])
       @ [ PrintNewlineIfNeeded ]
       @ (if length (variables operation) > 0
          then
            (let properties = map (propertyFromVariable I) (variables operation)
             in [ PropertyDeclarations properties,
                  PrintNewlineIfNeeded ]
                @ initializerDeclarationForProperties I properties
                @ [ PrintNewlineIfNeeded,
                    PrintOnNewline ''public var variables: GraphQLMap?'',
                    WithinBlock
                      [ PrintOnNewline
                          (wrap I ''return [''
                             (orColon
                               (join I
                                 (map (\<lambda>p. Some (''"'' @ Property.name p @ ''": ''
                                            @ escapeIdentifierIfNeeded I (Property.propertyName p)))
                                   properties)
                                 (Some '', '')))
                             '']'') ] ])
          else initializerDeclarationForProperties I [])
       @ structDeclarationForSelectionSet I ctx ''Data'' None (Operation.selectionSet operation)
           outputIndividualFiles None)\<close>

definition classDeclarationForOperation ::
  \<open>Imports \<Rightarrow> Operation \<Rightarrow> bool \<Rightarrow> SwiftAPIGenerator
    \<Rightarrow> (error + unit) \<times> Operation \<times> SwiftAPIGenerator\<close> where
  \<open>classDeclarationForOperation I operation outputIndividualFiles g =
    (case classNameAndProtocol I operation of
       Inl e \<Rightarrow> (Inl e, operation, g)
     | Inr (className', protocol) \<Rightarrow>
         (let ctx = context g;
              isRedundant = (truthy (CompilerOptions.namespace (options ctx)) \<and> outputIndividualFiles);
              modifiers' = (if isRedundant then [''final''] else [''public'', ''final'']);
              fragmentsReferenced =
                collectFragmentsReferenced I (Operation.selectionSet operation) (fragments ctx);
              operation' =
                (if generateOperationIds (options ctx)
                 then operation
                        \<lparr> operationId :=
                            Some (generateOperationId I operation (fragments ctx) fragmentsReferenced) \<rparr>
                 else operation)
          in ( Inr (),
               operation',
               print_code
                 [ ClassDeclaration
                     \<lparr> className = className',
                       modifiers = modifiers',
                       Class.adoptedProtocols = [protocol] \<rparr>
                     (classBodyForOperation I ctx operation outputIndividualFiles) ]
                 g )))\<close>

subsection \<open>Declarations for the types used\<close>







subsection \<open>generateSource\<close>



text \<open>
  A call that takes a closure: the closure prints into the call, and an error thrown in the
  closure passes through the call.
\<close>

definition inClosure ::
  \<open>(code list \<Rightarrow> code) \<Rightarrow> (SwiftAPIGenerator \<Rightarrow> (error + unit) \<times> SwiftAPIGenerator)
    \<Rightarrow> SwiftAPIGenerator \<Rightarrow> (error + unit) \<times> SwiftAPIGenerator\<close> where
  \<open>inClosure call closure g =
    (case closure (g\<lparr> output := [] \<rparr>) of
       (r, g') \<Rightarrow> (r, g'\<lparr> output := output g @ [call (output g')] \<rparr>))\<close>





text \<open>
  What \<^verbatim>\<open>classDeclarationForOperation\<close> prints for an operation of a supported kind, and the
  operation as it leaves it.
\<close>

definition operationClass :: \<open>Imports \<Rightarrow> CompilerContext \<Rightarrow> bool \<Rightarrow> Operation \<Rightarrow> code list\<close> where
  \<open>operationClass I ctx outputIndividualFiles operation =
    (case classNameAndProtocol I operation of
       Inl e \<Rightarrow> []
     | Inr (className', protocol) \<Rightarrow>
         [ ClassDeclaration
             \<lparr> className = className',
               modifiers =
                 (if truthy (CompilerOptions.namespace (options ctx)) \<and> outputIndividualFiles
                  then [''final''] else [''public'', ''final'']),
               Class.adoptedProtocols = [protocol] \<rparr>
             (classBodyForOperation I ctx operation outputIndividualFiles) ])\<close>

definition withOperationId :: \<open>Imports \<Rightarrow> CompilerContext \<Rightarrow> Operation \<Rightarrow> Operation\<close> where
  \<open>withOperationId I ctx operation =
    (if generateOperationIds (options ctx)
     then operation
            \<lparr> operationId :=
                Some (generateOperationId I operation (fragments ctx)
                       (collectFragmentsReferenced I (Operation.selectionSet operation)
                         (fragments ctx))) \<rparr>
     else operation)\<close>




text \<open>
  The table of operations after the loop over the operations whose file path satisfies a
  condition, what that loop prints, what the loop over the fragments prints, and the file of one
  input file path.
\<close>

definition markOperations ::
  \<open>Imports \<Rightarrow> CompilerContext \<Rightarrow> (string \<Rightarrow> bool) \<Rightarrow> (string \<times> Operation) list
    \<Rightarrow> (string \<times> Operation) list\<close> where
  \<open>markOperations I ctx P table =
    map (\<lambda>x. (fst x, if P (Operation.filePath (snd x))
                       then withOperationId I ctx (snd x) else snd x))
      table\<close>

definition classesFor ::
  \<open>Imports \<Rightarrow> CompilerContext \<Rightarrow> bool \<Rightarrow> (string \<Rightarrow> bool) \<Rightarrow> (string \<times> Operation) list
    \<Rightarrow> code list\<close> where
  \<open>classesFor I ctx outputIndividualFiles P table =
    concat
      (map (\<lambda>x. if P (Operation.filePath (snd x))
                 then operationClass I ctx outputIndividualFiles (snd x) else [])
        table)\<close>

definition fragmentsFor ::
  \<open>Imports \<Rightarrow> CompilerContext \<Rightarrow> bool \<Rightarrow> (string \<Rightarrow> bool) \<Rightarrow> code list\<close> where
  \<open>fragmentsFor I ctx outputIndividualFiles P =
    concat
      (map (\<lambda>x. if P (Fragment.filePath (snd x))
                 then structDeclarationForFragment I ctx (snd x) outputIndividualFiles else [])
        (fragments ctx))\<close>




definition supportedOn :: \<open>(string \<Rightarrow> bool) \<Rightarrow> (string \<times> Operation) list \<Rightarrow> bool\<close> where
  \<open>supportedOn P table \<longleftrightarrow>
    (\<forall>x \<in> set table. P (Operation.filePath (snd x))
       \<longrightarrow> operationType (snd x) \<in> {''query'', ''mutation'', ''subscription''})\<close>


subsection \<open>Reading the printed class: the query document\<close>

text \<open>
  The printed \<^verbatim>\<open>queryDocument\<close> is a chain of \<^verbatim>\<open>appending\<close> calls on \<^verbatim>\<open>operationDefinition\<close>,
  one for the \<^verbatim>\<open>fragmentDefinition\<close> of a struct each.  Its value is the concatenation of the
  strings the names stand for, and is undefined when a name is not declared.
\<close>

datatype swift_string_expr =
    OperationDefinition
  | Appending swift_string_expr string

fun render_string_expr :: \<open>swift_string_expr \<Rightarrow> string\<close> where
  \<open>render_string_expr OperationDefinition = ''operationDefinition''\<close>
| \<open>render_string_expr (Appending e s) =
     render_string_expr e @ ''.appending('' @ s @ ''.fragmentDefinition)''\<close>

fun eval_string_expr ::
  \<open>string option \<Rightarrow> (string \<Rightarrow> string option) \<Rightarrow> swift_string_expr \<Rightarrow> string option\<close> where
  \<open>eval_string_expr od fd OperationDefinition = od\<close>
| \<open>eval_string_expr od fd (Appending e s) =
     (case eval_string_expr od fd e of
        None \<Rightarrow> None
      | Some a \<Rightarrow> (case fd s of None \<Rightarrow> None | Some b \<Rightarrow> Some (a @ b)))\<close>

text \<open>
  The text of the line that declares \<^verbatim>\<open>queryDocument\<close> among the calls of a class body: the
  line the generator starts for it, continued by the calls of \<^verbatim>\<open>print\<close> that follow.
\<close>

fun printed_after :: \<open>code list \<Rightarrow> string\<close> where
  \<open>printed_after (Print t # rest) = t @ printed_after rest\<close>
| \<open>printed_after _ = []\<close>

fun queryDocumentIn :: \<open>code list \<Rightarrow> string option\<close> where
  \<open>queryDocumentIn [] = None\<close>
| \<open>queryDocumentIn (c # rest) =
     (if c = PrintOnNewline ''public var queryDocument: String { return operationDefinition''
      then Some (''public var queryDocument: String { return operationDefinition''
                  @ printed_after rest)
      else queryDocumentIn rest)\<close>

text \<open>
  The string constant declared under a given first line: the multi-line string printed, indented,
  right after that line.
\<close>

fun stringConstantIn :: \<open>string \<Rightarrow> code list \<Rightarrow> string option\<close> where
  \<open>stringConstantIn h (PrintOnNewline t # WithIndent [MultilineString s] # rest) =
     (if t = h then Some s else stringConstantIn h rest)\<close>
| \<open>stringConstantIn h (c # rest) = stringConstantIn h rest\<close>
| \<open>stringConstantIn h [] = None\<close>

definition operationDefinitionIn :: \<open>code list \<Rightarrow> string option\<close> where
  \<open>operationDefinitionIn body = stringConstantIn ''public let operationDefinition ='' body\<close>

fun fragmentDefinitionIn :: \<open>code \<Rightarrow> (string \<times> string) list\<close> where
  \<open>fragmentDefinitionIn (StructDeclaration s b body) =
     (case stringConstantIn ''public static let fragmentDefinition ='' body of
        None \<Rightarrow> []
      | Some d \<Rightarrow> [(Struct.structName s, d)])\<close>
| \<open>fragmentDefinitionIn _ = []\<close>

text \<open>
  The entries that the struct of one fragment contributes to the declared fragment definitions.
\<close>

definition fragmentEntries ::
  \<open>Imports \<Rightarrow> CompilerContext \<Rightarrow> bool \<Rightarrow> Fragment \<Rightarrow> (string \<times> string) list\<close> where
  \<open>fragmentEntries I ctx b f = concat (map fragmentDefinitionIn (structDeclarationForFragment I ctx f b))\<close>

text \<open>
  The \<^verbatim>\<open>fragmentDefinition\<close> of each struct that the generator declares for the fragments of
  the context.
\<close>

definition fragmentDefinitions ::
  \<open>Imports \<Rightarrow> CompilerContext \<Rightarrow> bool \<Rightarrow> string \<Rightarrow> string option\<close> where
  \<open>fragmentDefinitions I ctx outputIndividualFiles =
    map_of
      (concat
        (map (\<lambda>(k, f). concat (map fragmentDefinitionIn
                                (structDeclarationForFragment I ctx f outputIndividualFiles)))
          (fragments ctx)))\<close>

text \<open>Whether a class body declares \<^verbatim>\<open>operationIdentifier\<close>.\<close>

fun declaresOperationIdentifier :: \<open>code list \<Rightarrow> bool\<close> where
  \<open>declaresOperationIdentifier [] = False\<close>
| \<open>declaresOperationIdentifier (PrintOnNewline t # rest) =
     (take 30 t = ''public let operationIdentifier'' \<or> declaresOperationIdentifier rest)\<close>
| \<open>declaresOperationIdentifier (_ # rest) = declaresOperationIdentifier rest\<close>

text \<open>
  The parameters of the initializer that a class body declares: the text printed between the
  parentheses after the line \<^verbatim>\<open>public init\<close>.
\<close>

fun printedText :: \<open>code \<Rightarrow> string option\<close> where
  \<open>printedText (Print t) = Some t\<close>
| \<open>printedText _ = None\<close>

definition initializerParametersIn :: \<open>code list \<Rightarrow> string option\<close> where
  \<open>initializerParametersIn body =
    (case tl (dropWhile (\<lambda>c. c \<noteq> PrintOnNewline ''public init'') body) of
       a # ps # z # rest \<Rightarrow> (if a = Print ''('' \<and> z = Print '')'' then printedText ps else None)
     | _ \<Rightarrow> None)\<close>

text \<open>The properties a class body declares for the variables, when it declares some.\<close>

fun declaredProperties :: \<open>code list \<Rightarrow> Property list\<close> where
  \<open>declaredProperties [] = []\<close>
| \<open>declaredProperties (PropertyDeclarations ps # rest) = ps\<close>
| \<open>declaredProperties (_ # rest) = declaredProperties rest\<close>

text \<open>The expression that stands in the printed \<^verbatim>\<open>queryDocument\<close> for a list of fragment names.\<close>

definition queryDocumentExpr :: \<open>Imports \<Rightarrow> string list \<Rightarrow> swift_string_expr\<close> where
  \<open>queryDocumentExpr I fragmentsReferenced =
    foldl Appending OperationDefinition (map (structNameForFragmentName I) fragmentsReferenced)\<close>

subsection \<open>Reading the printed enumeration\<close>











subsection \<open>Reading the printed accessors\<close>









text \<open>
  The result map holds strings and other values under its keys.  A forced read of a string entry
  gives the string, and fails when the entry is missing or is not a string.  The property
  \<^verbatim>\<open>__typename\<close> stands for the getter that the enclosing struct declares for it: when that
  getter is the forced read of the entry \<^verbatim>\<open>"__typename"\<close> as a string, the property is the
  string of the entry, and it has no value when the struct declares no such getter.  A getter
  returns a struct over the result map, or \<^verbatim>\<open>nil\<close>, or fails.
\<close>

datatype result_value = StringValue string | OtherValue

type_synonym ResultMap = \<open>string \<rightharpoonup> result_value\<close>





subsection \<open>Sample imports and a sample context\<close>

text \<open>
  One choice of the imported functions, for the examples: the names are kept as they are, a type
  name is the usual Swift spelling, \<^verbatim>\<open>join\<close> puts the separator between the non-empty strings
  it is given, the referenced fragments are the fragments spread at the top of the selection
  set, and the identifier is the source text itself.
\<close>

fun sampleTypeName :: \<open>GraphQLType \<Rightarrow> string\<close>
  and sampleNonNullTypeName :: \<open>GraphQLType \<Rightarrow> string\<close> where
  \<open>sampleTypeName (GraphQLNonNull t) = sampleNonNullTypeName t\<close>
| \<open>sampleTypeName t = sampleNonNullTypeName t @ ''?''\<close>
| \<open>sampleNonNullTypeName (GraphQLList t) = ''['' @ sampleTypeName t @ '']''\<close>
| \<open>sampleNonNullTypeName (GraphQLNonNull t) = sampleNonNullTypeName t\<close>
| \<open>sampleNonNullTypeName (GraphQLScalarType n) = n\<close>
| \<open>sampleNonNullTypeName (GraphQLObjectType n) = n\<close>
| \<open>sampleNonNullTypeName (GraphQLInterfaceType n) = n\<close>
| \<open>sampleNonNullTypeName (GraphQLUnionType n) = n\<close>
| \<open>sampleNonNullTypeName (GraphQLEnumType n) = n\<close>
| \<open>sampleNonNullTypeName (GraphQLInputObjectType n) = n\<close>

fun joinWith :: \<open>string \<Rightarrow> string list \<Rightarrow> string\<close> where
  \<open>joinWith sep [] = []\<close>
| \<open>joinWith sep [x] = x\<close>
| \<open>joinWith sep (x # y # ys) = x @ sep @ joinWith sep (y # ys)\<close>

definition sampleJoin :: \<open>string option list \<Rightarrow> string option \<Rightarrow> string\<close> where
  \<open>sampleJoin xs sep =
    joinWith (case sep of None \<Rightarrow> [] | Some s \<Rightarrow> s)
      (filter (\<lambda>s. s \<noteq> []) (concat (map (\<lambda>x. case x of None \<Rightarrow> [] | Some s \<Rightarrow> [s]) xs)))\<close>

definition sampleWrap :: \<open>string \<Rightarrow> string \<Rightarrow> string \<Rightarrow> string\<close> where
  \<open>sampleWrap start s end' = (if s \<noteq> [] then start @ s @ end' else [])\<close>

fun spreadNames :: \<open>Selection list \<Rightarrow> string list\<close> where
  \<open>spreadNames [] = []\<close>
| \<open>spreadNames (FragmentSpreadSelection fs # rest) =
     FragmentSpread.fragmentName fs # spreadNames rest\<close>
| \<open>spreadNames (_ # rest) = spreadNames rest\<close>

definition spreadsOf :: \<open>Selection list \<Rightarrow> FragmentSpread list\<close> where
  \<open>spreadsOf sels =
    concat (map (\<lambda>s. case s of FragmentSpreadSelection fs \<Rightarrow> [fs] | _ \<Rightarrow> []) sels)\<close>

definition sampleFieldProperty :: \<open>Selection \<Rightarrow> FieldProperty\<close> where
  \<open>sampleFieldProperty s =
    \<lparr> FieldProperty.responseKey = Selection.responseKey s,
      FieldProperty.propertyName = Selection.responseKey s,
      FieldProperty.type = fieldType s,
      FieldProperty.typeName = sampleTypeName (fieldType s),
      FieldProperty.structName = Selection.responseKey s,
      FieldProperty.isOptional = (\<not> isNonNullType (fieldType s)),
      FieldProperty.isConditional = False,
      FieldProperty.description = None,
      FieldProperty.isDeprecated = False,
      FieldProperty.deprecationReason = None,
      FieldProperty.selectionSet = fieldSelectionSet s \<rparr>\<close>

definition sampleImports :: Imports where
  \<open>sampleImports =
    \<lparr> operationClassName = (\<lambda>n. n),
      structNameForFragmentName = (\<lambda>n. n),
      typeNameFromGraphQLType = (\<lambda>t u opt. sampleTypeName t),
      structNameForPropertyName = (\<lambda>n. n),
      mapExpressionForType = (\<lambda>t c make e i out. make e),
      isList = (\<lambda>t. isListType t \<or> (isNonNullType t \<and> isListType (ofType t))),
      enumCaseName = (\<lambda>n. n),
      enumDotCaseName = (\<lambda>n. ''.'' @ n),
      propertyFromField = sampleFieldProperty,
      propertyFromVariant =
        (\<lambda>v. \<lparr> variant = v,
                VariantProperty.propertyName = ''as'' @ concat (Variant.possibleTypes v),
                VariantProperty.typeName = ''As'' @ concat (Variant.possibleTypes v) @ ''?'',
                VariantProperty.structName = ''As'' @ concat (Variant.possibleTypes v) \<rparr>),
      propertyFromFragmentSpread =
        (\<lambda>fs c. \<lparr> fragmentSpread = fs,
                   FragmentSpreadProperty.propertyName = FragmentSpread.fragmentName fs,
                   FragmentSpreadProperty.typeName =
                     FragmentSpread.fragmentName fs @ (if c then ''?'' else []),
                   FragmentSpreadProperty.structName = FragmentSpread.fragmentName fs,
                   FragmentSpreadProperty.isConditional = c \<rparr>),
      propertyFromInputField =
        (\<lambda>f. \<lparr> Property.name = GraphQLInputField.name f,
                Property.propertyName = GraphQLInputField.name f,
                Property.type = GraphQLInputField.type f,
                Property.typeName = sampleTypeName (GraphQLInputField.type f),
                Property.isOptional = (\<not> isNonNullType (GraphQLInputField.type f)),
                Property.description = GraphQLInputField.description f \<rparr>),
      escapeIdentifierIfNeeded = (\<lambda>n. n),
      join = sampleJoin,
      wrap = sampleWrap,
      typeCaseForSelectionSet =
        (\<lambda>s m. \<lparr> default =
                    \<lparr> Variant.possibleTypes = SelectionSet.possibleTypes s,
                      Variant.selections = SelectionSet.selections s,
                      fragmentSpreads = spreadsOf (SelectionSet.selections s) \<rparr>,
                  variants = [],
                  remainder = None \<rparr>),
      collectAndMergeFields =
        (\<lambda>v m. filter (\<lambda>s. case s of Field _ _ _ _ _ \<Rightarrow> True | _ \<Rightarrow> False) (Variant.selections v)),
      collectFragmentsReferenced = (\<lambda>s fs. remdups (spreadNames (SelectionSet.selections s))),
      generateOperationId = (\<lambda>operation fs refs. Operation.source operation),
      basename = (\<lambda>p. p) \<rparr>\<close>

text \<open>
  A query for a hero that spreads one fragment, the fragment, and a context with both.
\<close>

definition heroNameFragment :: Fragment where
  \<open>heroNameFragment =
    \<lparr> Fragment.filePath = ''HeroName.graphql'',
      fragmentName = ''HeroName'',
      Fragment.source = ''fragment HeroName on Character { name }'',
      typeCondition = GraphQLInterfaceType ''Character'',
      Fragment.selectionSet =
        SelectionSet [''Human'', ''Droid'']
          [ Field ''name'' ''name'' None (GraphQLNonNull (GraphQLScalarType ''String'')) None ] \<rparr>\<close>

definition heroQuery :: Operation where
  \<open>heroQuery =
    \<lparr> operationId = None,
      operationName = ''Hero'',
      operationType = ''query'',
      variables =
        [ \<lparr> Variable.name = ''episode'', Variable.type = GraphQLEnumType ''Episode'' \<rparr>,
          \<lparr> Variable.name = ''ids'',
            Variable.type = GraphQLList (GraphQLNonNull (GraphQLScalarType ''Int'')) \<rparr>,
          \<lparr> Variable.name = ''first'', Variable.type = GraphQLNonNull (GraphQLScalarType ''Int'') \<rparr> ],
      Operation.filePath = ''Hero.graphql'',
      Operation.source = ''query Hero { ...HeroName }'',
      rootType = GraphQLObjectType ''Query'',
      Operation.selectionSet =
        SelectionSet [''Query'']
          [ FragmentSpreadSelection
              (FragmentSpread ''HeroName'' (Fragment.selectionSet heroNameFragment)) ] \<rparr>\<close>

definition sampleOptions :: CompilerOptions where
  \<open>sampleOptions =
    \<lparr> CompilerOptions.namespace = None,
      mergeInFieldsFromFragmentSpreads = False,
      generateOperationIds = False \<rparr>\<close>

definition sampleContext :: CompilerContext where
  \<open>sampleContext =
    \<lparr> typesUsed = [],
      operations = [(''Hero'', heroQuery)],
      fragments = [(''HeroName'', heroNameFragment)],
      options = sampleOptions \<rparr>\<close>

definition sampleGenerator :: SwiftAPIGenerator where
  \<open>sampleGenerator = \<lparr> context = sampleContext, output = [] \<rparr>\<close>

definition sampleGeneratorWithIds :: SwiftAPIGenerator where
  \<open>sampleGeneratorWithIds =
    \<lparr> context = sampleContext\<lparr> options := sampleOptions\<lparr> generateOperationIds := True \<rparr> \<rparr>,
      output = [] \<rparr>\<close>













section \<open>Properties of the service check command\<close>

lemma isInteger_Fin_iff: \<open>isInteger (Fin r) \<longleftrightarrow> r \<in> \<int>\<close>
  by (auto simp: Ints_def)

text \<open>
  What \<^verbatim>\<open>validateHistoricParams\<close> accepts, for any conversion: the first three conditions are
  those of the checks, and the last check lets through every percentage that is neither below
  0 nor above 100, the not-a-number value included.
\<close>

lemma validateHistoricParams_accepts_iff:
  \<open>(\<exists>r. validateHistoricParams Number p = Inr r) \<longleftrightarrow>
     in_to p \<noteq> ''0'' \<and> in_from p \<noteq> ''0''
     \<and> (\<exists>t f q. Number (in_to p) = Fin t \<and> t \<in> \<int> \<and> t \<le> 0
            \<and> Number (in_from p) = Fin f \<and> f \<in> \<int> \<and> f < t
            \<and> in_queryCountThreshold p = Fin q \<and> q \<in> \<int> \<and> 1 \<le> q)
     \<and> (in_queryCountThresholdPercentage p = NaN
          \<or> (\<exists>c. in_queryCountThresholdPercentage p = Fin c \<and> 0 \<le> c \<and> c \<le> 100))\<close>
proof -
  obtain tn where tn: \<open>Number (in_to p) = tn\<close> by simp
  obtain fn where fn: \<open>Number (in_from p) = fn\<close> by simp
  obtain qn where qn: \<open>in_queryCountThreshold p = qn\<close> by simp
  obtain pn where pn: \<open>in_queryCountThresholdPercentage p = pn\<close> by simp
  show ?thesis
    unfolding validateHistoricParams_def Let_def tn fn qn pn
    by (cases tn; cases fn; cases qn; cases pn)
       (auto simp: js_gt_def js_ge_def isInteger_Fin_iff simp del: isInteger.simps(1))
qed

text \<open>
  C9.  The claim: \<^verbatim>\<open>validateHistoricParams\<close> returns a result if and only if the four
  conditions hold, the last being that the percentage lies in the range from 0 to 100.  The
  code at a percentage that is not a number: both comparisons of the last check are false, so
  the check passes and a record with a not-a-number percentage is returned, although the three
  checks before it reject such a value and the message of the last check gives the range
  0 <= x <= 100.
\<close>

theorem validateHistoricParams_NaN_percentage:
  \<open>validateHistoricParams Number_defaults
      \<lparr> in_to = ''-0'', in_from = ''-86400'',
        in_queryCountThreshold = Fin 1, in_queryCountThresholdPercentage = NaN \<rparr>
    = Inr \<lparr> hq_to = Fin 0, hq_from = Fin (- 86400),
            hq_queryCountThreshold = Fin 1, hq_queryCountThresholdPercentage = NaN \<rparr>\<close>
  by (simp add: validateHistoricParams_def Number_defaults_def js_gt_def js_ge_def)

theorem validateHistoricParams_NaN_percentage_witness:
  \<open>\<exists>r. validateHistoricParams Number_defaults
          \<lparr> in_to = ''-0'', in_from = ''-86400'',
            in_queryCountThreshold = Fin 1, in_queryCountThresholdPercentage = NaN \<rparr> = Inr r
        \<and> isNaN (hq_queryCountThresholdPercentage r)\<close>
  using validateHistoricParams_NaN_percentage by simp




section \<open>Properties of the Swift code generator\<close>

subsection \<open>Operations\<close>

text \<open>
  C3.  An operation of kind query, mutation or subscription is printed: the call returns without
  an error, and the generator has one more class declaration, whose name ends in the kind and
  which adopts the protocol of the kind.  For any other kind the call throws the error for an
  unsupported operation type, and the generator and the operation are exactly as they were
  before the call: nothing of the operation has been printed.  So the call succeeds if and only
  if the kind is one of the three.
\<close>

theorem classDeclarationForOperation_kind:
  \<open>(operationType operation = ''query'' \<longrightarrow>
      (\<exists>operation' ms body.
         classDeclarationForOperation I operation outputIndividualFiles g
           = (Inr (), operation',
              g\<lparr> output := output g @
                [ ClassDeclaration
                    \<lparr> className = operationClassName I (operationName operation) @ ''Query'',
                      modifiers = ms, Class.adoptedProtocols = [''GraphQLQuery''] \<rparr> body ] \<rparr>)))
   \<and> (operationType operation = ''mutation'' \<longrightarrow>
      (\<exists>operation' ms body.
         classDeclarationForOperation I operation outputIndividualFiles g
           = (Inr (), operation',
              g\<lparr> output := output g @
                [ ClassDeclaration
                    \<lparr> className = operationClassName I (operationName operation) @ ''Mutation'',
                      modifiers = ms, Class.adoptedProtocols = [''GraphQLMutation''] \<rparr> body ] \<rparr>)))
   \<and> (operationType operation = ''subscription'' \<longrightarrow>
      (\<exists>operation' ms body.
         classDeclarationForOperation I operation outputIndividualFiles g
           = (Inr (), operation',
              g\<lparr> output := output g @
                [ ClassDeclaration
                    \<lparr> className = operationClassName I (operationName operation) @ ''Subscription'',
                      modifiers = ms, Class.adoptedProtocols = [''GraphQLSubscription''] \<rparr> body ] \<rparr>)))
   \<and> (operationType operation \<notin> {''query'', ''mutation'', ''subscription''} \<longrightarrow>
        classDeclarationForOperation I operation outputIndividualFiles g
          = (Inl (GraphQLError (''Unsupported operation type "'' @ operationType operation @ ''"'')),
             operation, g))
   \<and> (fst (classDeclarationForOperation I operation outputIndividualFiles g) = Inr ()
        \<longleftrightarrow> operationType operation \<in> {''query'', ''mutation'', ''subscription''})\<close>
  by (auto simp: classDeclarationForOperation_def classNameAndProtocol_def print_code_def Let_def)

theorem classDeclarationForOperation_kind_witness:
  \<open>fst (classDeclarationForOperation sampleImports heroQuery False sampleGenerator) = Inr ()
   \<and> classDeclarationForOperation sampleImports (heroQuery\<lparr> operationType := ''fragment'' \<rparr>)
        False sampleGenerator
      = (Inl (GraphQLError ''Unsupported operation type "fragment"''),
         heroQuery\<lparr> operationType := ''fragment'' \<rparr>, sampleGenerator)\<close>
  using classDeclarationForOperation_kind
    [of \<open>heroQuery\<lparr> operationType := ''fragment'' \<rparr>\<close> sampleImports False sampleGenerator]
    classDeclarationForOperation_kind [of heroQuery sampleImports False sampleGenerator]
  by (simp add: heroQuery_def)

lemma declares_append [simp]:
  \<open>declaresOperationIdentifier (xs @ ys)
     \<longleftrightarrow> declaresOperationIdentifier xs \<or> declaresOperationIdentifier ys\<close>
  by (induction xs rule: declaresOperationIdentifier.induct) auto

lemma declares_map_self [simp]:
  \<open>\<not> declaresOperationIdentifier (map (\<lambda>p. PrintOnNewline (''self.'' @ f p)) ps)\<close>
  by (induction ps) auto

lemma declares_initializer [simp]:
  \<open>\<not> declaresOperationIdentifier (initializerDeclarationForProperties I ps)\<close>
  by (simp add: initializerDeclarationForProperties_def parametersForProperties_def)

lemma declares_struct [simp]:
  \<open>\<not> declaresOperationIdentifier (structDeclarationForSelectionSet I ctx n ps s b bf)\<close>
  by (simp add: structDeclarationForSelectionSet_def structDeclarationForVariant_def Let_def)

lemma declares_map_Print [simp]:
  \<open>\<not> declaresOperationIdentifier (map (\<lambda>n. Print (f n)) refs)\<close>
  by (induction refs) auto

lemma declares_queryDocument [simp]:
  \<open>\<not> declaresOperationIdentifier (queryDocumentDeclaration I refs)\<close>
  by (simp add: queryDocumentDeclaration_def)

lemma declares_classBody:
  \<open>declaresOperationIdentifier (classBodyForOperation I ctx operation b)
     \<longleftrightarrow> generateOperationIds (options ctx)\<close>
  by (simp add: classBodyForOperation_def Let_def)

text \<open>No printing method but the class body reads the imported \<^verbatim>\<open>generateOperationId\<close>.\<close>

lemma possibleTypesDeclaration_generateOperationId [simp]:
  \<open>possibleTypesDeclaration (I\<lparr> generateOperationId := f \<rparr>) = possibleTypesDeclaration I\<close>
  by (rule ext) (simp add: possibleTypesDeclaration_def)

lemma propertyDeclarationForVariant_generateOperationId [simp]:
  \<open>propertyDeclarationForVariant (I\<lparr> generateOperationId := f \<rparr>)
     = propertyDeclarationForVariant I\<close>
  by (rule ext) (simp add: propertyDeclarationForVariant_def)

lemma propertyDeclarationForFragmentSpread_generateOperationId [simp]:
  \<open>propertyDeclarationForFragmentSpread (I\<lparr> generateOperationId := f \<rparr>)
     = propertyDeclarationForFragmentSpread I\<close>
  by (rule ext) (simp add: propertyDeclarationForFragmentSpread_def)

lemma propertyDeclarationForField_generateOperationId [simp]:
  \<open>propertyDeclarationForField (I\<lparr> generateOperationId := f \<rparr>)
     = propertyDeclarationForField I\<close>
  by (rule ext) (simp add: propertyDeclarationForField_def Let_def)

lemma fragmentsDeclaration_generateOperationId [simp]:
  \<open>fragmentsDeclaration (I\<lparr> generateOperationId := f \<rparr>) = fragmentsDeclaration I\<close>
  by (intro ext) (simp add: fragmentsDeclaration_def fragmentsStructBody_def)

lemma structBodyForVariant_generateOperationId [simp]:
  \<open>structBodyForVariant (I\<lparr> generateOperationId := f \<rparr>) = structBodyForVariant I\<close>
  by (intro ext) (simp add: structBodyForVariant_def)

lemma structDeclarationForVariant_generateOperationId [simp]:
  \<open>structDeclarationForVariant (I\<lparr> generateOperationId := f \<rparr>)
     = structDeclarationForVariant I\<close>
  by (intro ext) (simp add: structDeclarationForVariant_def)

lemma variantDeclarations_generateOperationId [simp]:
  \<open>variantDeclarations (I\<lparr> generateOperationId := f \<rparr>) = variantDeclarations I\<close>
  by (intro ext) (simp add: variantDeclarations_def)

lemma structDeclarationForSelectionSet_generateOperationId [simp]:
  \<open>structDeclarationForSelectionSet (I\<lparr> generateOperationId := f \<rparr>)
     = structDeclarationForSelectionSet I\<close>
  by (intro ext) (simp add: structDeclarationForSelectionSet_def)

lemma initializer_generateOperationId [simp]:
  \<open>initializerDeclarationForProperties (I\<lparr> generateOperationId := f \<rparr>) ps
     = initializerDeclarationForProperties I ps\<close>
  by (simp add: initializerDeclarationForProperties_def parametersForProperties_def
      parameterForProperty_def)

lemma propertyFromVariable_generateOperationId [simp]:
  \<open>propertyFromVariable (I\<lparr> generateOperationId := f \<rparr>) = propertyFromVariable I\<close>
  by (rule ext) (simp add: propertyFromVariable_def)

lemma classBody_generateOperationId:
  \<open>\<not> generateOperationIds (options ctx)
    \<Longrightarrow> classBodyForOperation (I\<lparr> generateOperationId := f \<rparr>) ctx operation b
        = classBodyForOperation I ctx operation b\<close>
  by (simp add: classBodyForOperation_def Let_def queryDocumentDeclaration_def)

text \<open>
  C7, as amended.  The call declares \<^verbatim>\<open>operationIdentifier\<close> in the class it prints if and only
  if the option \<^verbatim>\<open>generateOperationIds\<close> is set and the kind of the operation is query, mutation
  or subscription.  In that case the identifier is the one \<^verbatim>\<open>generateOperationId\<close> returns for the
  operation, the fragment table and the referenced fragments; it is stored in the operation and
  printed in the declaration.  In every other case, with the option not set or with another
  kind, for which the call throws before it reads the option, the operation is left as it was,
  no identifier is declared, and the whole call does not depend on \<^verbatim>\<open>generateOperationId\<close>: any
  other function in its place gives the same result.
\<close>

theorem operation_identifier_gate:
  assumes \<open>classDeclarationForOperation I operation outputIndividualFiles g = (r, operation', g')\<close>
    and \<open>ident = generateOperationId I operation (fragments (context g))
                   (collectFragmentsReferenced I (Operation.selectionSet operation)
                     (fragments (context g)))\<close>
    and \<open>gate \<longleftrightarrow> generateOperationIds (options (context g))
                   \<and> operationType operation \<in> {''query'', ''mutation'', ''subscription''}\<close>
  shows \<open>((\<exists>c body. output g' = output g @ [ClassDeclaration c body]
                     \<and> declaresOperationIdentifier body) \<longleftrightarrow> gate)
    \<and> (gate \<longrightarrow>
          operation' = operation\<lparr> operationId := Some ident \<rparr>
          \<and> (\<exists>c. output g'
                 = output g
                   @ [ClassDeclaration c
                        (classBodyForOperation I (context g) operation outputIndividualFiles)])
          \<and> PrintOnNewline (''public let operationIdentifier: String? = "'' @ ident @ ''"'')
              \<in> set (classBodyForOperation I (context g) operation outputIndividualFiles))
    \<and> (\<not> gate \<longrightarrow>
          operation' = operation
          \<and> (\<forall>f. classDeclarationForOperation (I\<lparr> generateOperationId := f \<rparr>)
                    operation outputIndividualFiles g
                 = classDeclarationForOperation I operation outputIndividualFiles g))
    \<and> (operationType operation \<notin> {''query'', ''mutation'', ''subscription''} \<longrightarrow>
          g' = g \<and> (\<exists>e. r = Inl e))\<close>
proof (cases \<open>operationType operation \<in> {''query'', ''mutation'', ''subscription''}\<close>)
  case True
  let ?body = \<open>classBodyForOperation I (context g) operation outputIndividualFiles\<close>
  have ok: \<open>\<exists>p. classNameAndProtocol I operation = Inr p\<close>
    using True by (auto simp: classNameAndProtocol_def)
  have same: \<open>classNameAndProtocol (I\<lparr> generateOperationId := f \<rparr>) operation
                = classNameAndProtocol I operation\<close> for f
    by (simp add: classNameAndProtocol_def)
  have emitted: \<open>\<exists>c. output g' = output g @ [ClassDeclaration c ?body]\<close>
    using ok assms(1)
    by (auto simp: classDeclarationForOperation_def print_code_def Let_def split: if_splits)
  have declared: \<open>(\<exists>c body. output g' = output g @ [ClassDeclaration c body]
                     \<and> declaresOperationIdentifier body)
      \<longleftrightarrow> generateOperationIds (options (context g))\<close>
    using emitted declares_classBody [of I \<open>context g\<close> operation outputIndividualFiles]
    by auto
  have set_id: \<open>generateOperationIds (options (context g)) \<Longrightarrow>
      operation' = operation\<lparr> operationId := Some ident \<rparr>
      \<and> PrintOnNewline (''public let operationIdentifier: String? = "'' @ ident @ ''"'') \<in> set ?body\<close>
    using ok assms(1,2)
    by (auto simp: classDeclarationForOperation_def classBodyForOperation_def Let_def)
  have unset: \<open>\<not> generateOperationIds (options (context g)) \<Longrightarrow>
      operation' = operation
      \<and> (\<forall>f. classDeclarationForOperation (I\<lparr> generateOperationId := f \<rparr>)
                operation outputIndividualFiles g
             = classDeclarationForOperation I operation outputIndividualFiles g)\<close>
    using ok assms(1)
    by (auto simp: classDeclarationForOperation_def same classBody_generateOperationId Let_def)
  show ?thesis
    using True emitted declared set_id unset by (simp add: assms(3))
next
  case False
  then have err: \<open>\<exists>e. classNameAndProtocol I operation = Inl e\<close>
    by (simp add: classNameAndProtocol_def)
  have same: \<open>classNameAndProtocol (I\<lparr> generateOperationId := f \<rparr>) operation
                = classNameAndProtocol I operation\<close> for f
    by (simp add: classNameAndProtocol_def)
  have thrown: \<open>operation' = operation \<and> g' = g \<and> (\<exists>e. r = Inl e)\<close>
    using err assms(1) by (auto simp: classDeclarationForOperation_def)
  have indep: \<open>classDeclarationForOperation (I\<lparr> generateOperationId := f \<rparr>)
                operation outputIndividualFiles g
             = classDeclarationForOperation I operation outputIndividualFiles g\<close> for f
    using err by (auto simp: classDeclarationForOperation_def same)
  show ?thesis
    using False thrown indep by (simp add: assms(3))
qed

theorem operation_identifier_gate_witness:
  \<open>operationId (fst (snd (classDeclarationForOperation sampleImports heroQuery False
                               sampleGeneratorWithIds)))
     = Some ''query Hero { ...HeroName }''
   \<and> operationId (fst (snd (classDeclarationForOperation sampleImports heroQuery False
                                 sampleGenerator)))
     = None\<close>
proof -
  have kind: \<open>operationType heroQuery \<in> {''query'', ''mutation'', ''subscription''}\<close>
    by (simp add: heroQuery_def)
  obtain r1 o1 g1 where
    r1: \<open>classDeclarationForOperation sampleImports heroQuery False sampleGeneratorWithIds
          = (r1, o1, g1)\<close>
    using prod_cases3 by blast
  obtain r2 o2 g2 where
    r2: \<open>classDeclarationForOperation sampleImports heroQuery False sampleGenerator
          = (r2, o2, g2)\<close>
    using prod_cases3 by blast
  have \<open>generateOperationIds (options (context sampleGeneratorWithIds))\<close>
    by (simp add: sampleGeneratorWithIds_def)
  then have \<open>o1 = heroQuery\<lparr> operationId :=
      Some (generateOperationId sampleImports heroQuery (fragments (context sampleGeneratorWithIds))
             (collectFragmentsReferenced sampleImports (Operation.selectionSet heroQuery)
               (fragments (context sampleGeneratorWithIds)))) \<rparr>\<close>
    using operation_identifier_gate [OF r1 refl refl] kind by blast
  then have e1: \<open>operationId o1 = Some ''query Hero { ...HeroName }''\<close>
    by (simp add: sampleImports_def heroQuery_def)
  have \<open>\<not> generateOperationIds (options (context sampleGenerator))\<close>
    by (simp add: sampleGenerator_def sampleContext_def sampleOptions_def)
  then have \<open>o2 = heroQuery\<close>
    using operation_identifier_gate [OF r2 refl refl] by blast
  then have e2: \<open>operationId o2 = None\<close>
    by (simp add: heroQuery_def)
  show ?thesis
    by (simp only: r1 r2 fst_conv snd_conv e1 e2 simp_thms)
qed

text \<open>
  The claim C7 as stated fails for an operation of another kind: with the option set, the call
  throws, the operation keeps its empty \<^verbatim>\<open>operationId\<close>, and nothing is printed.
\<close>

theorem unsupported_kind_identifier_counterexample:
  \<open>generateOperationIds (options (context sampleGeneratorWithIds))
   \<and> classDeclarationForOperation sampleImports (heroQuery\<lparr> operationType := ''fragment'' \<rparr>)
        False sampleGeneratorWithIds
      = (Inl (GraphQLError ''Unsupported operation type "fragment"''),
         heroQuery\<lparr> operationType := ''fragment'' \<rparr>, sampleGeneratorWithIds)
   \<and> operationId (heroQuery\<lparr> operationType := ''fragment'' \<rparr>) = None
   \<and> output sampleGeneratorWithIds = []\<close>
  by (simp add: classDeclarationForOperation_def classNameAndProtocol_def
      sampleGeneratorWithIds_def heroQuery_def)

text \<open>
  The class body up to the initializer: no line before it starts an initializer, and the
  properties declared before it are those of the variables.
\<close>

lemma declaredProperties_map_Print [simp]:
  \<open>declaredProperties (map (\<lambda>n. Print (f n)) ns @ ys) = declaredProperties ys\<close>
  by (induction ns) simp_all

lemma classBody_before_initializer:
  \<open>\<exists>pre rest.
      classBodyForOperation I ctx operation b
        = pre @ initializerDeclarationForProperties I (map (propertyFromVariable I) (variables operation))
          @ rest
      \<and> (\<forall>c \<in> set pre. c \<noteq> PrintOnNewline ''public init'')\<close>
proof -
  let ?a = \<open>(if Operation.source operation \<noteq> []
        then [ CommentWithoutTrimming (Operation.source operation),
               PrintOnNewline ''public let operationDefinition ='',
               WithIndent [ MultilineString (Operation.source operation) ] ]
        else [])
       @ [ PrintNewlineIfNeeded,
           PrintOnNewline (''public let operationName = "'' @ operationName operation @ ''"'') ]
       @ (if generateOperationIds (options ctx)
          then [ PrintNewlineIfNeeded,
                 PrintOnNewline
                   (''public let operationIdentifier: String? = "''
                     @ generateOperationId I operation (fragments ctx)
                         (collectFragmentsReferenced I (Operation.selectionSet operation) (fragments ctx))
                     @ ''"'') ]
          else [])
       @ (if length (collectFragmentsReferenced I (Operation.selectionSet operation) (fragments ctx)) > 0
          then queryDocumentDeclaration I
                 (collectFragmentsReferenced I (Operation.selectionSet operation) (fragments ctx))
          else [])
       @ [ PrintNewlineIfNeeded ]\<close>
  let ?props = \<open>map (propertyFromVariable I) (variables operation)\<close>
  have a: \<open>\<forall>c \<in> set ?a. c \<noteq> PrintOnNewline ''public init''\<close>
    by (auto simp: queryDocumentDeclaration_def)
  show ?thesis
  proof (cases \<open>variables operation = []\<close>)
    case True
    have \<open>classBodyForOperation I ctx operation b
        = ?a @ initializerDeclarationForProperties I ?props
          @ structDeclarationForSelectionSet I ctx ''Data'' None (Operation.selectionSet operation) b None\<close>
      using True by (simp add: classBodyForOperation_def Let_def)
    then show ?thesis
      using a by (intro exI conjI)
  next
    case False
    have \<open>\<exists>rest. classBodyForOperation I ctx operation b
        = (?a @ [PropertyDeclarations ?props, PrintNewlineIfNeeded])
          @ initializerDeclarationForProperties I ?props @ rest\<close>
      using False by (simp add: classBodyForOperation_def Let_def)
    then obtain rest where eq: \<open>classBodyForOperation I ctx operation b
        = (?a @ [PropertyDeclarations ?props, PrintNewlineIfNeeded])
          @ initializerDeclarationForProperties I ?props @ rest\<close> ..
    have p: \<open>\<forall>c \<in> set (?a @ [PropertyDeclarations ?props, PrintNewlineIfNeeded]).
              c \<noteq> PrintOnNewline ''public init''\<close>
      using a by auto
    show ?thesis
      using eq p by (intro exI conjI)
  qed
qed

lemma initializerParametersIn_classBody:
  \<open>initializerParametersIn (classBodyForOperation I ctx operation b)
     = Some (join I (map (\<lambda>v. Some (parameterForProperty I (propertyFromVariable I v)))
                      (variables operation))
              (Some '', ''))\<close>
proof -
  obtain pre rest where
    eq: \<open>classBodyForOperation I ctx operation b
        = pre @ initializerDeclarationForProperties I (map (propertyFromVariable I) (variables operation))
          @ rest\<close>
    and pre: \<open>\<forall>c \<in> set pre. c \<noteq> PrintOnNewline ''public init''\<close>
    using classBody_before_initializer [of I ctx operation b] by blast
  show ?thesis
    unfolding eq initializerParametersIn_def initializerDeclarationForProperties_def
      parametersForProperties_def
    using pre by (simp add: dropWhile_append3 comp_def)
qed

lemma declaredProperties_classBody:
  \<open>declaredProperties (classBodyForOperation I ctx operation b)
     = (if variables operation = [] then []
        else map (propertyFromVariable I) (variables operation))\<close>
proof -
  have \<open>declaredProperties (structDeclarationForSelectionSet I ctx n ps s b bf) = []\<close> for n ps s bf
    by (simp add: structDeclarationForSelectionSet_def structDeclarationForVariant_def Let_def)
  then show ?thesis
    by (simp add: classBodyForOperation_def Let_def queryDocumentDeclaration_def
        initializerDeclarationForProperties_def parametersForProperties_def)
qed

lemma isOptional_propertyFromVariable:
  \<open>Property.isOptional (propertyFromVariable I v)
     \<longleftrightarrow> \<not> ((\<exists>t. Variable.type v = GraphQLNonNull t)
            \<or> (\<exists>t. Variable.type v = GraphQLList (GraphQLNonNull t)))\<close>
proof -
  have \<open>isNonNullType t \<longleftrightarrow> (\<exists>u. t = GraphQLNonNull u)\<close> for t
    by (cases t) simp_all
  moreover have \<open>isListType t \<and> isNonNullType (ofType t) \<longleftrightarrow> (\<exists>u. t = GraphQLList (GraphQLNonNull u))\<close>
    for t
  proof (cases t)
    case (GraphQLList u)
    then show ?thesis by (cases u) simp_all
  qed simp_all
  ultimately show ?thesis
    by (simp add: propertyFromVariable_def Let_def)
qed

text \<open>
  C5, as amended.  The class printed for an operation declares one initializer, with one
  parameter for each variable, in order, joined with commas.  The parameter of a variable is the
  escaped name, a colon and the type name the helper gives, joined with the default \<^verbatim>\<open> = nil\<close>
  exactly when the type of the variable is neither a non-null type nor a list of a non-null
  type; and exactly then the property declared for the variable is optional.  A variable of a
  non-null type, and also a variable whose type is a list with non-null elements, gives a
  property that is not optional and a parameter without a default, which a caller has to give.
\<close>

theorem variable_parameter_default:
  \<open>initializerParametersIn (classBodyForOperation I ctx operation outputIndividualFiles)
     = Some (join I
              (map (\<lambda>v. Some (join I
                          [ Some (escapeIdentifierIfNeeded I (Variable.name v) @ '': ''
                                   @ typeNameFromGraphQLType I (Variable.type v) None None),
                            if (\<exists>t. Variable.type v = GraphQLNonNull t)
                               \<or> (\<exists>t. Variable.type v = GraphQLList (GraphQLNonNull t))
                            then None else Some '' = nil'' ]
                          None))
                (variables operation))
              (Some '', ''))
   \<and> map Property.propertyName
        (declaredProperties (classBodyForOperation I ctx operation outputIndividualFiles))
     = map Variable.name (variables operation)
   \<and> map Property.isOptional
        (declaredProperties (classBodyForOperation I ctx operation outputIndividualFiles))
     = map (\<lambda>v. \<not> ((\<exists>t. Variable.type v = GraphQLNonNull t)
                    \<or> (\<exists>t. Variable.type v = GraphQLList (GraphQLNonNull t))))
         (variables operation)\<close>
proof -
  have param: \<open>parameterForProperty I (propertyFromVariable I v)
      = join I
          [ Some (escapeIdentifierIfNeeded I (Variable.name v) @ '': ''
                   @ typeNameFromGraphQLType I (Variable.type v) None None),
            if (\<exists>t. Variable.type v = GraphQLNonNull t)
               \<or> (\<exists>t. Variable.type v = GraphQLList (GraphQLNonNull t))
            then None else Some '' = nil'' ]
          None\<close> for v
    using isOptional_propertyFromVariable [of I v]
    by (simp add: parameterForProperty_def defaultValueClause_def)
       (simp add: propertyFromVariable_def Let_def)
  have names: \<open>Property.propertyName (propertyFromVariable I v) = Variable.name v\<close> for v
    by (simp add: propertyFromVariable_def Let_def)
  show ?thesis
    by (simp add: initializerParametersIn_classBody declaredProperties_classBody param names
        isOptional_propertyFromVariable comp_def)
qed

theorem variable_parameter_default_witness:
  \<open>initializerParametersIn (classBodyForOperation sampleImports sampleContext heroQuery False)
     = Some ''episode: Episode? = nil, ids: [Int]?, first: Int''
   \<and> map Property.isOptional
        (declaredProperties (classBodyForOperation sampleImports sampleContext heroQuery False))
     = [True, False, False]\<close>
proof -
  note facts = variable_parameter_default [of sampleImports sampleContext heroQuery False]
  have vs: \<open>variables heroQuery
      = [ \<lparr> Variable.name = ''episode'', Variable.type = GraphQLEnumType ''Episode'' \<rparr>,
          \<lparr> Variable.name = ''ids'',
            Variable.type = GraphQLList (GraphQLNonNull (GraphQLScalarType ''Int'')) \<rparr>,
          \<lparr> Variable.name = ''first'', Variable.type = GraphQLNonNull (GraphQLScalarType ''Int'') \<rparr> ]\<close>
    by (simp add: heroQuery_def)
  have \<open>initializerParametersIn (classBodyForOperation sampleImports sampleContext heroQuery False)
     = Some ''episode: Episode? = nil, ids: [Int]?, first: Int''\<close>
    unfolding facts [THEN conjunct1] vs by (simp add: sampleImports_def sampleJoin_def)
  moreover have \<open>map Property.isOptional
        (declaredProperties (classBodyForOperation sampleImports sampleContext heroQuery False))
     = [True, False, False]\<close>
    unfolding facts [THEN conjunct2, THEN conjunct2] vs by simp
  ultimately show ?thesis
    by (intro conjI)
qed

text \<open>
  The claim C5 as stated fails for a nullable list of non-null elements: the type of the variable
  is not a non-null type, and yet its property is not optional and its parameter has no default.
\<close>

theorem nullable_list_variable_counterexample:
  \<open>\<not> isNonNullType (GraphQLList (GraphQLNonNull (GraphQLScalarType ''Int'')))
   \<and> initializerParametersIn
        (classBodyForOperation sampleImports sampleContext
          (heroQuery\<lparr> variables :=
             [ \<lparr> Variable.name = ''ids'',
                 Variable.type = GraphQLList (GraphQLNonNull (GraphQLScalarType ''Int'')) \<rparr> ] \<rparr>)
          False)
      = Some ''ids: [Int]?''
   \<and> map Property.isOptional
        (declaredProperties
          (classBodyForOperation sampleImports sampleContext
            (heroQuery\<lparr> variables :=
               [ \<lparr> Variable.name = ''ids'',
                   Variable.type = GraphQLList (GraphQLNonNull (GraphQLScalarType ''Int'')) \<rparr> ] \<rparr>)
            False))
      = [False]\<close>
  by (simp add: initializerParametersIn_classBody declaredProperties_classBody
      parameterForProperty_def defaultValueClause_def propertyFromVariable_def
      sampleImports_def sampleJoin_def)

text \<open>
  C8.  Whatever the call returns, the operation it leaves differs from the operation it was
  given in the field \<^verbatim>\<open>operationId\<close> at most, and the context of the generator, with the
  fragments, the types used, the options and the table of operations, is the one before the call.
\<close>

theorem operation_frame:
  \<open>classDeclarationForOperation I operation outputIndividualFiles g = (r, operation', g')
    \<Longrightarrow> operation'\<lparr> operationId := operationId operation \<rparr> = operation
        \<and> context g' = context g\<close>
  by (auto simp: classDeclarationForOperation_def print_code_def Let_def
      split: sum.splits prod.splits if_splits)

theorem operation_frame_witness:
  \<open>fst (snd (classDeclarationForOperation sampleImports heroQuery False sampleGeneratorWithIds))
     = heroQuery\<lparr> operationId := Some ''query Hero { ...HeroName }'' \<rparr>
   \<and> context (snd (snd (classDeclarationForOperation sampleImports heroQuery False
                            sampleGeneratorWithIds)))
     = context sampleGeneratorWithIds\<close>
proof -
  obtain r o' g' where
    res: \<open>classDeclarationForOperation sampleImports heroQuery False sampleGeneratorWithIds
           = (r, o', g')\<close>
    using prod_cases3 by blast
  have id: \<open>operationId o' = Some ''query Hero { ...HeroName }''\<close>
    using res
    by (auto simp: classDeclarationForOperation_def classNameAndProtocol_def Let_def
        sampleGeneratorWithIds_def sampleImports_def heroQuery_def)
  have frame: \<open>o'\<lparr> operationId := operationId heroQuery \<rparr> = heroQuery\<close>
    and ctx: \<open>context g' = context sampleGeneratorWithIds\<close>
    using operation_frame [OF res] by simp_all
  have \<open>o' = (o'\<lparr> operationId := operationId heroQuery \<rparr>)\<lparr> operationId := operationId o' \<rparr>\<close>
    by simp
  then have \<open>o' = heroQuery\<lparr> operationId := Some ''query Hero { ...HeroName }'' \<rparr>\<close>
    by (simp only: frame id)
  then show ?thesis
    by (simp only: res fst_conv snd_conv ctx simp_thms)
qed

subsection \<open>The query document\<close>

lemma printed_after_map_Print:
  \<open>printed_after (map (\<lambda>n. Print (f n)) xs @ ys) = concat (map f xs) @ printed_after ys\<close>
  by (induction xs) simp_all

lemma render_foldl_Appending:
  \<open>render_string_expr (foldl Appending e ns)
     = render_string_expr e @ concat (map (\<lambda>s. ''.appending('' @ s @ ''.fragmentDefinition)'') ns)\<close>
  by (induction ns arbitrary: e) simp_all

lemma eval_foldl_Appending:
  \<open>eval_string_expr od fd e = Some a \<Longrightarrow> \<forall>n \<in> set ns. fd (sn n) = Some (src n)
    \<Longrightarrow> eval_string_expr od fd (foldl Appending e (map sn ns)) = Some (a @ concat (map src ns))\<close>
  by (induction ns arbitrary: e a) simp_all

lemma queryDocumentIn_skip:
  \<open>PrintOnNewline ''public var queryDocument: String { return operationDefinition'' \<notin> set xs
    \<Longrightarrow> queryDocumentIn (xs @ ys) = queryDocumentIn ys\<close>
  by (induction xs) auto

lemma queryDocumentIn_none:
  \<open>PrintOnNewline ''public var queryDocument: String { return operationDefinition'' \<notin> set xs
    \<Longrightarrow> queryDocumentIn xs = None\<close>
  by (induction xs) auto

lemma queryDocumentIn_declaration:
  \<open>queryDocumentIn (queryDocumentDeclaration I refs @ PrintNewlineIfNeeded # rest)
     = Some (''public var queryDocument: String { return ''
              @ render_string_expr (queryDocumentExpr I refs) @ '' }'')\<close>
  by (simp add: queryDocumentDeclaration_def queryDocumentExpr_def printed_after_map_Print
      render_foldl_Appending comp_def)

lemma queryDocumentIn_classBody:
  \<open>queryDocumentIn (classBodyForOperation I ctx operation b)
     = (let refs = collectFragmentsReferenced I (Operation.selectionSet operation) (fragments ctx)
        in if refs = [] then None
           else Some (''public var queryDocument: String { return ''
                       @ render_string_expr (queryDocumentExpr I refs) @ '' }''))\<close>
proof -
  let ?refs = \<open>collectFragmentsReferenced I (Operation.selectionSet operation) (fragments ctx)\<close>
  let ?h = \<open>PrintOnNewline ''public var queryDocument: String { return operationDefinition''\<close>
  obtain pre post where
    body: \<open>classBodyForOperation I ctx operation b
             = pre @ (if length ?refs > 0 then queryDocumentDeclaration I ?refs else [])
               @ PrintNewlineIfNeeded # post\<close>
    and pre: \<open>?h \<notin> set pre\<close> and post: \<open>?h \<notin> set post\<close>
  proof
    show \<open>classBodyForOperation I ctx operation b
      = ((if Operation.source operation \<noteq> []
          then [ CommentWithoutTrimming (Operation.source operation),
                 PrintOnNewline ''public let operationDefinition ='',
                 WithIndent [ MultilineString (Operation.source operation) ] ]
          else [])
         @ [ PrintNewlineIfNeeded,
             PrintOnNewline (''public let operationName = "'' @ operationName operation @ ''"'') ]
         @ (if generateOperationIds (options ctx)
            then [ PrintNewlineIfNeeded,
                   PrintOnNewline
                     (''public let operationIdentifier: String? = "''
                       @ generateOperationId I operation (fragments ctx) ?refs @ ''"'') ]
            else []))
        @ (if length ?refs > 0 then queryDocumentDeclaration I ?refs else [])
        @ PrintNewlineIfNeeded
          # ((if length (variables operation) > 0
              then
                (let properties = map (propertyFromVariable I) (variables operation)
                 in [ PropertyDeclarations properties, PrintNewlineIfNeeded ]
                    @ initializerDeclarationForProperties I properties
                    @ [ PrintNewlineIfNeeded,
                        PrintOnNewline ''public var variables: GraphQLMap?'',
                        WithinBlock
                          [ PrintOnNewline
                              (wrap I ''return [''
                                 (orColon
                                   (join I
                                     (map (\<lambda>p. Some (''"'' @ Property.name p @ ''": ''
                                                @ escapeIdentifierIfNeeded I (Property.propertyName p)))
                                       properties)
                                     (Some '', '')))
                                 '']'') ] ])
              else initializerDeclarationForProperties I [])
             @ structDeclarationForSelectionSet I ctx ''Data'' None (Operation.selectionSet operation)
                 b None)\<close>
      by (simp add: classBodyForOperation_def Let_def)
  next
    show \<open>?h \<notin> set ((if Operation.source operation \<noteq> []
          then [ CommentWithoutTrimming (Operation.source operation),
                 PrintOnNewline ''public let operationDefinition ='',
                 WithIndent [ MultilineString (Operation.source operation) ] ]
          else [])
         @ [ PrintNewlineIfNeeded,
             PrintOnNewline (''public let operationName = "'' @ operationName operation @ ''"'') ]
         @ (if generateOperationIds (options ctx)
            then [ PrintNewlineIfNeeded,
                   PrintOnNewline
                     (''public let operationIdentifier: String? = "''
                       @ generateOperationId I operation (fragments ctx) ?refs @ ''"'') ]
            else []))\<close>
      by simp
  next
    show \<open>?h \<notin> set ((if length (variables operation) > 0
              then
                (let properties = map (propertyFromVariable I) (variables operation)
                 in [ PropertyDeclarations properties, PrintNewlineIfNeeded ]
                    @ initializerDeclarationForProperties I properties
                    @ [ PrintNewlineIfNeeded,
                        PrintOnNewline ''public var variables: GraphQLMap?'',
                        WithinBlock
                          [ PrintOnNewline
                              (wrap I ''return [''
                                 (orColon
                                   (join I
                                     (map (\<lambda>p. Some (''"'' @ Property.name p @ ''": ''
                                                @ escapeIdentifierIfNeeded I (Property.propertyName p)))
                                       properties)
                                     (Some '', '')))
                                 '']'') ] ])
              else initializerDeclarationForProperties I [])
             @ structDeclarationForSelectionSet I ctx ''Data'' None (Operation.selectionSet operation)
                 b None)\<close>
      by (auto simp: Let_def initializerDeclarationForProperties_def parametersForProperties_def
          structDeclarationForSelectionSet_def structDeclarationForVariant_def)
  qed
  show ?thesis
  proof (cases \<open>?refs = []\<close>)
    case True
    then show ?thesis
      using pre post by (simp add: body queryDocumentIn_skip queryDocumentIn_none)
  next
    case False
    then show ?thesis
      using pre by (simp add: body queryDocumentIn_skip queryDocumentIn_declaration)
  qed
qed

lemma stringConstantIn_Cons:
  \<open>c \<noteq> PrintOnNewline h \<Longrightarrow> stringConstantIn h (c # ys) = stringConstantIn h ys\<close>
  by (cases \<open>(h, c # ys)\<close> rule: stringConstantIn.cases) auto

lemma stringConstantIn_skip:
  \<open>PrintOnNewline h \<notin> set xs \<Longrightarrow> stringConstantIn h (xs @ ys) = stringConstantIn h ys\<close>
  by (induction xs) (auto simp: stringConstantIn_Cons)

lemma stringConstantIn_none:
  \<open>PrintOnNewline h \<notin> set xs \<Longrightarrow> stringConstantIn h xs = None\<close>
  using stringConstantIn_skip [of h xs \<open>[]\<close>] by simp

lemma operationDefinitionIn_classBody:
  \<open>operationDefinitionIn (classBodyForOperation I ctx operation b)
     = (if Operation.source operation = [] then None else Some (Operation.source operation))\<close>
proof (cases \<open>Operation.source operation = []\<close>)
  case False
  then show ?thesis
    by (simp add: operationDefinitionIn_def classBodyForOperation_def Let_def)
next
  case True
  have \<open>PrintOnNewline ''public let operationDefinition =''
          \<notin> set (classBodyForOperation I ctx operation b)\<close>
    using True
    by (auto simp: classBodyForOperation_def Let_def queryDocumentDeclaration_def
        initializerDeclarationForProperties_def parametersForProperties_def
        structDeclarationForSelectionSet_def structDeclarationForVariant_def)
  then show ?thesis
    using True by (simp add: operationDefinitionIn_def stringConstantIn_none)
qed

text \<open>Only the closure handed in by \<^verbatim>\<open>structDeclarationForFragment\<close> declares a fragment definition.\<close>

lemma no_fragmentDefinition_field:
  \<open>PrintOnNewline ''public static let fragmentDefinition ='' \<notin> set (propertyDeclarationForField I f)\<close>
  by (simp add: propertyDeclarationForField_def Let_def)

lemma no_fragmentDefinition_variants:
  \<open>PrintOnNewline ''public static let fragmentDefinition ='' \<notin> set (variantDeclarations I ctx tc b)\<close>
  by (auto simp: variantDeclarations_def Let_def propertyDeclarationForVariant_def
      structDeclarationForVariant_def)

lemma no_fragmentDefinition_body:
  \<open>PrintOnNewline ''public static let fragmentDefinition ='' \<notin> set (case bf of None \<Rightarrow> [] | Some x \<Rightarrow> x)
    \<Longrightarrow> PrintOnNewline ''public static let fragmentDefinition ='' \<notin> set (case af of None \<Rightarrow> [] | Some x \<Rightarrow> x)
    \<Longrightarrow> PrintOnNewline ''public static let fragmentDefinition =''
          \<notin> set (structBodyForVariant I ctx v tc b bf af)\<close>
  by (auto simp: structBodyForVariant_def Let_def no_fragmentDefinition_field
      possibleTypesDeclaration_def fragmentsDeclaration_def split: option.splits if_splits)

lemma structDeclarationForFragment_shape:
  \<open>\<exists>rest. structDeclarationForFragment I ctx f b
     = [ StructDeclaration
           \<lparr> Struct.structName = structNameForFragmentName I (Fragment.fragmentName f),
             Struct.adoptedProtocols = Some [''GraphQLFragment''],
             Struct.description = None,
             Struct.namespace = CompilerOptions.namespace (options ctx) \<rparr> b
           ((if Fragment.source f \<noteq> []
             then [ CommentWithoutTrimming (Fragment.source f),
                    PrintOnNewline ''public static let fragmentDefinition ='',
                    WithIndent [ MultilineString (Fragment.source f) ] ]
             else []) @ rest) ]\<close>
  by (simp add: structDeclarationForFragment_def structDeclarationForSelectionSet_def
      structDeclarationForVariant_def structBodyForVariant_def Let_def)

lemma fragmentEntries_exact:
  \<open>fragmentEntries I ctx b f
     = (if Fragment.source f = [] then []
        else [(structNameForFragmentName I (Fragment.fragmentName f), Fragment.source f)])\<close>
proof (cases \<open>Fragment.source f = []\<close>)
  case False
  then show ?thesis
    using structDeclarationForFragment_shape [of I ctx f b]
    by (auto simp: fragmentEntries_def)
next
  case True
  let ?tc = \<open>typeCaseForSelectionSet I (Fragment.selectionSet f)
               (CompilerOptions.mergeInFieldsFromFragmentSpreads (options ctx))\<close>
  have \<open>PrintOnNewline ''public static let fragmentDefinition =''
          \<notin> set (structBodyForVariant I ctx (default ?tc) (Some ?tc) b (Some [])
                    (Some (variantDeclarations I ctx ?tc b)))\<close>
    by (rule no_fragmentDefinition_body) (simp_all add: no_fragmentDefinition_variants)
  then show ?thesis
    using True
    by (simp add: fragmentEntries_def structDeclarationForFragment_def
        structDeclarationForSelectionSet_def structDeclarationForVariant_def Let_def
        stringConstantIn_none)
qed

lemma fragmentDefinitions_entries:
  \<open>fragmentDefinitions I ctx b
     = map_of (concat (map (\<lambda>x. fragmentEntries I ctx b (snd x)) (fragments ctx)))\<close>
  by (simp add: fragmentDefinitions_def fragmentEntries_def case_prod_unfold)

lemma eval_queryDocumentExpr:
  assumes \<open>od = Some a\<close>
    and \<open>\<forall>f \<in> set fs. fd (structNameForFragmentName I (Fragment.fragmentName f))
                           = Some (Fragment.source f)\<close>
  shows \<open>eval_string_expr od fd (queryDocumentExpr I (map Fragment.fragmentName fs))
       = Some (a @ concat (map Fragment.source fs))\<close>
proof -
  have \<open>eval_string_expr od fd e = Some a'
      \<Longrightarrow> eval_string_expr od fd
            (foldl Appending e (map (structNameForFragmentName I) (map Fragment.fragmentName fs)))
          = Some (a' @ concat (map Fragment.source fs))\<close> for e a'
    using assms(2) by (induction fs arbitrary: e a') simp_all
  then show ?thesis
    using assms(1) by (simp add: queryDocumentExpr_def)
qed

lemma eval_queryDocumentExpr_undeclared:
  \<open>eval_string_expr None fd (queryDocumentExpr I refs) = None\<close>
proof -
  have \<open>eval_string_expr None fd e = None
      \<Longrightarrow> eval_string_expr None fd (foldl Appending e ns) = None\<close> for e ns
    by (induction ns arbitrary: e) simp_all
  then show ?thesis
    by (simp add: queryDocumentExpr_def)
qed

text \<open>
  C4, as amended.  The class body declares \<^verbatim>\<open>operationDefinition\<close> as the source text of the
  operation, if that text is not empty, and not at all if it is.  If the operation references no
  fragment, no \<^verbatim>\<open>queryDocument\<close> is printed.  If it references some, the printed
  \<^verbatim>\<open>queryDocument\<close> returns \<^verbatim>\<open>operationDefinition\<close> with the \<^verbatim>\<open>fragmentDefinition\<close> of the struct of
  each referenced fragment appended, in the order of the collector.  The struct printed for a
  fragment declares its \<^verbatim>\<open>fragmentDefinition\<close> as the source text of the fragment, under the
  struct name of the fragment, if that text is not empty, and not at all if it is.  So, for an
  operation with a source text whose referenced fragments have source texts, and wherever the
  constants stand for what the structs of these fragments declare, the value of the printed
  \<^verbatim>\<open>queryDocument\<close> is the source text of the operation followed by the source texts of the
  referenced fragments, in the order of the collector.
\<close>

theorem queryDocument_send_text:
  assumes \<open>refs = collectFragmentsReferenced I (Operation.selectionSet operation) (fragments ctx)\<close>
    and \<open>body = classBodyForOperation I ctx operation outputIndividualFiles\<close>
  shows \<open>operationDefinitionIn body
       = (if Operation.source operation = [] then None else Some (Operation.source operation))
    \<and> queryDocumentIn body
       = (if refs = [] then None
          else Some (''public var queryDocument: String { return ''
                      @ render_string_expr
                          (foldl Appending OperationDefinition
                            (map (structNameForFragmentName I) refs))
                      @ '' }''))
    \<and> (\<forall>f b. fragmentEntries I ctx b f
          = (if Fragment.source f = [] then []
             else [(structNameForFragmentName I (Fragment.fragmentName f), Fragment.source f)]))
    \<and> (\<forall>fs fd b.
          map Fragment.fragmentName fs = refs
          \<and> Operation.source operation \<noteq> []
          \<and> (\<forall>f \<in> set fs. Fragment.source f \<noteq> [])
          \<and> (\<forall>f \<in> set fs. \<forall>e \<in> set (fragmentEntries I ctx b f). fd (fst e) = Some (snd e))
          \<longrightarrow> eval_string_expr (operationDefinitionIn body) fd
                (foldl Appending OperationDefinition (map (structNameForFragmentName I) refs))
              = Some (Operation.source operation @ concat (map Fragment.source fs)))\<close>
proof (intro conjI allI impI)
  show od: \<open>operationDefinitionIn body
       = (if Operation.source operation = [] then None else Some (Operation.source operation))\<close>
    unfolding assms(2) by (rule operationDefinitionIn_classBody)
  have \<open>queryDocumentIn (classBodyForOperation I ctx operation outputIndividualFiles)
      = (if collectFragmentsReferenced I (Operation.selectionSet operation) (fragments ctx) = []
         then None
         else Some (''public var queryDocument: String { return ''
                     @ render_string_expr
                         (queryDocumentExpr I
                           (collectFragmentsReferenced I (Operation.selectionSet operation)
                             (fragments ctx)))
                     @ '' }''))\<close>
    using queryDocumentIn_classBody [of I ctx operation outputIndividualFiles]
    by (simp only: Let_def)
  then show \<open>queryDocumentIn body
       = (if refs = [] then None
          else Some (''public var queryDocument: String { return ''
                      @ render_string_expr
                          (foldl Appending OperationDefinition
                            (map (structNameForFragmentName I) refs))
                      @ '' }''))\<close>
    by (simp only: assms(1,2) queryDocumentExpr_def)
  show \<open>fragmentEntries I ctx b f
          = (if Fragment.source f = [] then []
             else [(structNameForFragmentName I (Fragment.fragmentName f), Fragment.source f)])\<close>
    for f b
    by (rule fragmentEntries_exact)
  show \<open>eval_string_expr (operationDefinitionIn body) fd
          (foldl Appending OperationDefinition (map (structNameForFragmentName I) refs))
        = Some (Operation.source operation @ concat (map Fragment.source fs))\<close>
    if h: \<open>map Fragment.fragmentName fs = refs
          \<and> Operation.source operation \<noteq> []
          \<and> (\<forall>f \<in> set fs. Fragment.source f \<noteq> [])
          \<and> (\<forall>f \<in> set fs. \<forall>e \<in> set (fragmentEntries I ctx b f). fd (fst e) = Some (snd e))\<close>
    for fs fd b
  proof -
    have declared: \<open>operationDefinitionIn body = Some (Operation.source operation)\<close>
      using od h by simp
    have \<open>\<forall>f \<in> set fs. fd (structNameForFragmentName I (Fragment.fragmentName f))
                           = Some (Fragment.source f)\<close>
      using h by (auto simp: fragmentEntries_exact split: if_splits)
    then have \<open>eval_string_expr (operationDefinitionIn body) fd
          (queryDocumentExpr I (map Fragment.fragmentName fs))
        = Some (Operation.source operation @ concat (map Fragment.source fs))\<close>
      by (rule eval_queryDocumentExpr [OF declared])
    then show ?thesis
      using h by (simp add: queryDocumentExpr_def)
  qed
qed

theorem queryDocument_send_text_witness:
  \<open>queryDocumentIn (classBodyForOperation sampleImports sampleContext heroQuery False)
     = Some ''public var queryDocument: String { return operationDefinition.appending(HeroName.fragmentDefinition) }''
   \<and> fragmentDefinitions sampleImports sampleContext False ''HeroName''
     = Some ''fragment HeroName on Character { name }''
   \<and> eval_string_expr
        (operationDefinitionIn (classBodyForOperation sampleImports sampleContext heroQuery False))
        (fragmentDefinitions sampleImports sampleContext False)
        (queryDocumentExpr sampleImports [''HeroName''])
     = Some ''query Hero { ...HeroName }fragment HeroName on Character { name }''\<close>
proof -
  let ?body = \<open>classBodyForOperation sampleImports sampleContext heroQuery False\<close>
  let ?fd = \<open>fragmentDefinitions sampleImports sampleContext False\<close>
  have refs: \<open>collectFragmentsReferenced sampleImports (Operation.selectionSet heroQuery)
                (fragments sampleContext) = [''HeroName'']\<close>
    by (simp add: sampleImports_def heroQuery_def)
  note facts = queryDocument_send_text [OF refs [symmetric] refl, of False]
  have entries: \<open>fragmentEntries sampleImports sampleContext False heroNameFragment
      = [(''HeroName'', ''fragment HeroName on Character { name }'')]\<close>
    by (simp add: fragmentEntries_exact heroNameFragment_def sampleImports_def)
  have frs: \<open>fragments sampleContext = [(''HeroName'', heroNameFragment)]\<close>
    by (simp add: sampleContext_def)
  have fd: \<open>?fd ''HeroName'' = Some ''fragment HeroName on Character { name }''\<close>
    by (simp add: fragmentDefinitions_entries frs entries)
  have line: \<open>queryDocumentIn ?body
     = Some ''public var queryDocument: String { return operationDefinition.appending(HeroName.fragmentDefinition) }''\<close>
    using facts [THEN conjunct1 [OF conjunct2]]
    by (simp add: sampleImports_def)
  have names: \<open>map Fragment.fragmentName [heroNameFragment] = [''HeroName'']\<close>
    by (simp add: heroNameFragment_def)
  have src: \<open>Operation.source heroQuery \<noteq> []\<close>
    and fsrc: \<open>\<forall>f \<in> set [heroNameFragment]. Fragment.source f \<noteq> []\<close>
    by (simp_all add: heroQuery_def heroNameFragment_def)
  have env: \<open>\<forall>f \<in> set [heroNameFragment].
      \<forall>e \<in> set (fragmentEntries sampleImports sampleContext False f). ?fd (fst e) = Some (snd e)\<close>
    by (simp add: entries fd)
  have \<open>eval_string_expr (operationDefinitionIn ?body) ?fd
          (foldl Appending OperationDefinition
            (map (structNameForFragmentName sampleImports) [''HeroName'']))
        = Some (Operation.source heroQuery @ concat (map Fragment.source [heroNameFragment]))\<close>
    using facts [THEN conjunct2, THEN conjunct2, THEN conjunct2,
        THEN spec [of _ \<open>[heroNameFragment]\<close>], THEN spec [of _ ?fd], THEN spec [of _ False]]
      names src fsrc env
    by blast
  then have \<open>eval_string_expr (operationDefinitionIn ?body) ?fd
        (queryDocumentExpr sampleImports [''HeroName''])
     = Some ''query Hero { ...HeroName }fragment HeroName on Character { name }''\<close>
    by (simp add: queryDocumentExpr_def heroQuery_def heroNameFragment_def)
  with line fd show ?thesis
    by (intro conjI)
qed

text \<open>
  The claim C4 as stated fails for an operation without a source text that references a
  fragment: the printed \<^verbatim>\<open>queryDocument\<close> starts from \<^verbatim>\<open>operationDefinition\<close>, which the class does
  not declare, and has no value.  It fails in the same way when a referenced fragment has no
  source text: the struct of the fragment declares no \<^verbatim>\<open>fragmentDefinition\<close>.
\<close>

theorem queryDocument_empty_source_counterexample:
  \<open>operationDefinitionIn
     (classBodyForOperation sampleImports sampleContext (heroQuery\<lparr> Operation.source := [] \<rparr>) False)
     = None
   \<and> queryDocumentIn
       (classBodyForOperation sampleImports sampleContext (heroQuery\<lparr> Operation.source := [] \<rparr>) False)
     = Some ''public var queryDocument: String { return operationDefinition.appending(HeroName.fragmentDefinition) }''
   \<and> eval_string_expr
        (operationDefinitionIn
          (classBodyForOperation sampleImports sampleContext
            (heroQuery\<lparr> Operation.source := [] \<rparr>) False))
        (fragmentDefinitions sampleImports sampleContext False)
        (queryDocumentExpr sampleImports [''HeroName''])
     = None
   \<and> fragmentDefinitions sampleImports
        (sampleContext\<lparr> fragments := [(''HeroName'', heroNameFragment\<lparr> Fragment.source := [] \<rparr>)] \<rparr>)
        False ''HeroName''
     = None
   \<and> eval_string_expr
        (operationDefinitionIn
          (classBodyForOperation sampleImports
            (sampleContext\<lparr> fragments := [(''HeroName'', heroNameFragment\<lparr> Fragment.source := [] \<rparr>)] \<rparr>)
            heroQuery False))
        (fragmentDefinitions sampleImports
          (sampleContext\<lparr> fragments := [(''HeroName'', heroNameFragment\<lparr> Fragment.source := [] \<rparr>)] \<rparr>)
          False)
        (queryDocumentExpr sampleImports [''HeroName''])
     = None\<close>
proof -
  let ?op = \<open>heroQuery\<lparr> Operation.source := [] \<rparr>\<close>
  let ?ctx = \<open>sampleContext\<lparr> fragments := [(''HeroName'', heroNameFragment\<lparr> Fragment.source := [] \<rparr>)] \<rparr>\<close>
  have od: \<open>operationDefinitionIn (classBodyForOperation sampleImports sampleContext ?op False) = None\<close>
    by (simp add: operationDefinitionIn_classBody)
  have refs: \<open>collectFragmentsReferenced sampleImports (Operation.selectionSet heroQuery)
                (fragments sampleContext) = [''HeroName'']\<close>
    by (simp add: sampleImports_def heroQuery_def)
  have expr: \<open>render_string_expr (queryDocumentExpr sampleImports [''HeroName''])
      = ''operationDefinition.appending(HeroName.fragmentDefinition)''\<close>
    by (simp add: queryDocumentExpr_def sampleImports_def)
  have line: \<open>queryDocumentIn (classBodyForOperation sampleImports sampleContext ?op False)
     = Some ''public var queryDocument: String { return operationDefinition.appending(HeroName.fragmentDefinition) }''\<close>
    using queryDocumentIn_classBody [of sampleImports sampleContext ?op False]
    by (simp add: refs Let_def expr)
  have ev: \<open>eval_string_expr
        (operationDefinitionIn (classBodyForOperation sampleImports sampleContext ?op False))
        (fragmentDefinitions sampleImports sampleContext False)
        (queryDocumentExpr sampleImports [''HeroName''])
     = None\<close>
    by (simp only: od eval_queryDocumentExpr_undeclared)
  have fd: \<open>fragmentDefinitions sampleImports ?ctx False ''HeroName'' = None\<close>
    by (simp add: fragmentDefinitions_entries fragmentEntries_exact)
  have ev': \<open>eval_string_expr
        (operationDefinitionIn (classBodyForOperation sampleImports ?ctx heroQuery False))
        (fragmentDefinitions sampleImports ?ctx False)
        (queryDocumentExpr sampleImports [''HeroName''])
     = None\<close>
    using fd by (simp add: queryDocumentExpr_def sampleImports_def split: option.splits)
  from od line ev fd ev' show ?thesis
    by (intro conjI)
qed

subsection \<open>Enumerations\<close>














subsection \<open>Narrowing accessors\<close>









lemma structDeclarationForSelectionSet_after:
  \<open>\<exists>h front.
      structDeclarationForSelectionSet I ctx n ps selSet b bf
        = [ StructDeclaration h b
              (front @ variantDeclarations I ctx
                         (typeCaseForSelectionSet I selSet
                           (mergeInFieldsFromFragmentSpreads (options ctx))) b) ]\<close>
  by (simp add: structDeclarationForSelectionSet_def structDeclarationForVariant_def
      structBodyForVariant_def Let_def)











subsection \<open>The two output modes of generateSource\<close>

text \<open>
  When every operation of the context is of a supported kind, no call of
  \<^verbatim>\<open>classDeclarationForOperation\<close> throws, and what \<^verbatim>\<open>generateSource\<close> returns can be written down
  for both modes.
\<close>



lemma context_print_code [simp]: \<open>context (print_code c g) = context g\<close>
  by (simp add: print_code_def)

lemma output_print_code [simp]: \<open>output (print_code c g) = output g @ c\<close>
  by (simp add: print_code_def)

lemma print_code_print_code [simp]: \<open>print_code d (print_code c g) = print_code (c @ d) g\<close>
  by (simp add: print_code_def)

lemma print_code_Nil [simp]: \<open>print_code [] g = g\<close>
  by (simp add: print_code_def)




text \<open>The printing methods read the options and the fragments of the context only.\<close>

lemma structBodyForVariant_operations [simp]:
  \<open>structBodyForVariant I (ctx\<lparr> operations := t \<rparr>) = structBodyForVariant I ctx\<close>
  by (intro ext) (simp add: structBodyForVariant_def)

lemma structDeclarationForVariant_operations [simp]:
  \<open>structDeclarationForVariant I (ctx\<lparr> operations := t \<rparr>) = structDeclarationForVariant I ctx\<close>
  by (intro ext) (simp add: structDeclarationForVariant_def)

lemma variantDeclarations_operations [simp]:
  \<open>variantDeclarations I (ctx\<lparr> operations := t \<rparr>) = variantDeclarations I ctx\<close>
  by (intro ext) (simp add: variantDeclarations_def)

lemma structDeclarationForSelectionSet_operations [simp]:
  \<open>structDeclarationForSelectionSet I (ctx\<lparr> operations := t \<rparr>)
     = structDeclarationForSelectionSet I ctx\<close>
  by (intro ext) (simp add: structDeclarationForSelectionSet_def)

lemma structDeclarationForFragment_operations [simp]:
  \<open>structDeclarationForFragment I (ctx\<lparr> operations := t \<rparr>) = structDeclarationForFragment I ctx\<close>
  by (intro ext) (simp add: structDeclarationForFragment_def)

lemma classBodyForOperation_operations [simp]:
  \<open>classBodyForOperation I (ctx\<lparr> operations := t \<rparr>) = classBodyForOperation I ctx\<close>
  by (intro ext) (simp add: classBodyForOperation_def Let_def)

lemma operationClass_operations [simp]:
  \<open>operationClass I (ctx\<lparr> operations := t \<rparr>) = operationClass I ctx\<close>
  by (intro ext) (simp add: operationClass_def split: sum.splits prod.splits)

lemma withOperationId_operations [simp]:
  \<open>withOperationId I (ctx\<lparr> operations := t \<rparr>) = withOperationId I ctx\<close>
  by (intro ext) (simp add: withOperationId_def)

lemma markOperations_operations [simp]:
  \<open>markOperations I (ctx\<lparr> operations := t \<rparr>) = markOperations I ctx\<close>
  by (intro ext) (simp add: markOperations_def cong: if_cong)

lemma classesFor_operations [simp]:
  \<open>classesFor I (ctx\<lparr> operations := t \<rparr>) = classesFor I ctx\<close>
  by (intro ext) (simp add: classesFor_def cong: if_cong)

lemma fragmentsFor_operations [simp]:
  \<open>fragmentsFor I (ctx\<lparr> operations := t \<rparr>) = fragmentsFor I ctx\<close>
  by (intro ext) (simp add: fragmentsFor_def cong: if_cong)

lemma withOperationId_fields [simp]:
  \<open>Operation.filePath (withOperationId I ctx operation) = Operation.filePath operation\<close>
  \<open>operationType (withOperationId I ctx operation) = operationType operation\<close>
  by (simp_all add: withOperationId_def)

lemma supportedOn_markOperations [simp]:
  \<open>supportedOn P (markOperations I ctx Q table) \<longleftrightarrow> supportedOn P table\<close>
  by (auto simp: supportedOn_def markOperations_def)




lemma inClosure_result:
  \<open>closure (g\<lparr> output := [] \<rparr>) = (r, g')
    \<Longrightarrow> inClosure call closure g = (r, g'\<lparr> output := output g @ [call (output g')] \<rparr>)\<close>
  by (simp add: inClosure_def)
























































end
